theory Spec2Isabelle
  imports Complex_Main "HOL-Library.Word"
begin

section \<open>Python values, exceptions and arrays\<close>

text \<open>
  The automation package is Python. Its exceptions are values of \<open>py_exception\<close>, and a
  function that can raise returns \<open>py_exception + 'a\<close> (\<open>Inl\<close> is the raise). A Python
  float is a \<open>py_float\<close>: a finite double, an infinity or nan. The device operations and
  the features of the confluency assessment compute with doubles, every operation
  rounded; \<open>to_uint8\<close> and the percentile it calls are modelled in exact arithmetic.
  Pixels of a camera frame are unsigned 16-bit words.
\<close>

datatype py_exception =
    ValueError string
  | TypeError string
  | IndexError string
  | AttributeError string
  | LinAlgError string
  | RuntimeError string
  | OverflowError string

fun str_of_exception :: "py_exception \<Rightarrow> string" where
  "str_of_exception (ValueError m) = m"
| "str_of_exception (TypeError m) = m"
| "str_of_exception (IndexError m) = m"
| "str_of_exception (AttributeError m) = m"
| "str_of_exception (LinAlgError m) = m"
| "str_of_exception (RuntimeError m) = m"
| "str_of_exception (OverflowError m) = m"

datatype py_float = Finite real | PosInf | NegInf | NaN

datatype py_value =
    PyNone
  | PyBool bool
  | PyInt int
  | PyFloat py_float
  | PyStr string
  | PyTuple "py_value list"

type_synonym image = "16 word list list"

subsection \<open>Doubles\<close>

text \<open>
  Python floats and NumPy's \<open>float64\<close> are IEEE 754 binary64 numbers: 53 significant
  bits, exponents of the leading bit from -1022 to 1023, subnormal numbers below
  \<open>2 powi (- 1022)\<close>. An arithmetic operation gives the exact result rounded to the
  nearest double, ties to the even significand; a rounded result of magnitude \<open>2 ^ 1024\<close>
  or more is an infinity.

  \<open>binade x\<close> is the exponent of the leading bit of \<open>x\<close>, no smaller than -1022, found
  by bisection over the 11 bits of the exponent field; \<open>round64 x\<close> is the multiple of
  \<open>2 powi (binade \<bar>x\<bar> - 52)\<close> nearest to \<open>x\<close>. \<open>Finite x\<close> stands for a double when
  \<open>is_binary64 x\<close>. The two zeros of the format are not told apart: the sign of a
  zero could only show in a division by it, which is modelled as a division by the
  positive zero.
\<close>

definition scale2 :: "real \<Rightarrow> int \<Rightarrow> real" where
  "scale2 x e = (if 0 \<le> e then x * 2 ^ nat e else x / 2 ^ nat (- e))"

definition round_half_even :: "real \<Rightarrow> int" where
  "round_half_even y =
     (let f = \<lfloor>y\<rfloor>; r = y - of_int f
      in if r < 1 / 2 then f else if 1 / 2 < r then f + 1 else if even f then f else f + 1)"

definition binade_search :: "real \<Rightarrow> int \<Rightarrow> int list \<Rightarrow> int" where
  "binade_search x lo bs = foldl (\<lambda>lo b. if scale2 1 (lo + b) \<le> x then lo + b else lo) lo bs"

definition binade :: "real \<Rightarrow> int" where
  "binade x = binade_search x (- 1022) [1024, 512, 256, 128, 64, 32, 16, 8, 4, 2, 1]"

definition round64 :: "real \<Rightarrow> real" where
  "round64 x =
     (let e = binade \<bar>x\<bar> - 52
      in scale2 (of_int (round_half_even (scale2 x (- e)))) e)"

definition is_binary64 :: "real \<Rightarrow> bool" where
  "is_binary64 x = (round64 x = x \<and> \<bar>x\<bar> < 2 ^ 1024)"

definition float_of_real :: "real \<Rightarrow> py_float" where
  "float_of_real x =
     (let r = round64 x
      in if 2 ^ 1024 \<le> \<bar>r\<bar> then (if 0 < r then PosInf else NegInf) else Finite r)"

text \<open>
  Arithmetic and comparison of doubles. The special values follow IEEE 754: nan
  propagates and compares false with everything, an infinity times zero and the
  difference of equal infinities are nan. Division is NumPy's, which returns an infinity
  or nan for a zero divisor where Python's own \<open>/\<close> raises. \<open>float_pow_half x\<close> is
  \<open>x ** .5\<close>, taken as the correctly rounded square root.
\<close>

fun float_mul :: "py_float \<Rightarrow> py_float \<Rightarrow> py_float" where
  "float_mul NaN _ = NaN"
| "float_mul _ NaN = NaN"
| "float_mul (Finite x) (Finite y) = float_of_real (x * y)"
| "float_mul (Finite x) PosInf = (if x = 0 then NaN else if 0 < x then PosInf else NegInf)"
| "float_mul (Finite x) NegInf = (if x = 0 then NaN else if 0 < x then NegInf else PosInf)"
| "float_mul PosInf (Finite y) = (if y = 0 then NaN else if 0 < y then PosInf else NegInf)"
| "float_mul NegInf (Finite y) = (if y = 0 then NaN else if 0 < y then NegInf else PosInf)"
| "float_mul PosInf PosInf = PosInf"
| "float_mul PosInf NegInf = NegInf"
| "float_mul NegInf PosInf = NegInf"
| "float_mul NegInf NegInf = PosInf"

fun float_add :: "py_float \<Rightarrow> py_float \<Rightarrow> py_float" where
  "float_add NaN _ = NaN"
| "float_add _ NaN = NaN"
| "float_add (Finite x) (Finite y) = float_of_real (x + y)"
| "float_add PosInf NegInf = NaN"
| "float_add NegInf PosInf = NaN"
| "float_add PosInf _ = PosInf"
| "float_add NegInf _ = NegInf"
| "float_add _ PosInf = PosInf"
| "float_add _ NegInf = NegInf"

fun float_neg :: "py_float \<Rightarrow> py_float" where
  "float_neg (Finite x) = Finite (- x)"
| "float_neg PosInf = NegInf"
| "float_neg NegInf = PosInf"
| "float_neg NaN = NaN"

definition float_sub :: "py_float \<Rightarrow> py_float \<Rightarrow> py_float" where
  "float_sub x y = float_add x (float_neg y)"

fun float_div :: "py_float \<Rightarrow> py_float \<Rightarrow> py_float" where
  "float_div NaN _ = NaN"
| "float_div _ NaN = NaN"
| "float_div (Finite x) (Finite y) =
     (if y = 0 then (if x = 0 then NaN else if 0 < x then PosInf else NegInf)
      else float_of_real (x / y))"
| "float_div (Finite x) _ = Finite 0"
| "float_div PosInf (Finite y) = (if 0 \<le> y then PosInf else NegInf)"
| "float_div NegInf (Finite y) = (if 0 \<le> y then NegInf else PosInf)"
| "float_div _ _ = NaN"

fun float_pow_half :: "py_float \<Rightarrow> py_float" where
  "float_pow_half (Finite x) = (if x < 0 then NaN else float_of_real (sqrt x))"
| "float_pow_half PosInf = PosInf"
| "float_pow_half NegInf = PosInf"
| "float_pow_half NaN = NaN"

fun float_lt :: "py_float \<Rightarrow> py_float \<Rightarrow> bool" where
  "float_lt NaN _ = False"
| "float_lt _ NaN = False"
| "float_lt (Finite x) (Finite y) = (x < y)"
| "float_lt _ NegInf = False"
| "float_lt PosInf _ = False"
| "float_lt NegInf _ = True"
| "float_lt _ PosInf = True"

fun float_le :: "py_float \<Rightarrow> py_float \<Rightarrow> bool" where
  "float_le NaN _ = False"
| "float_le _ NaN = False"
| "float_le (Finite x) (Finite y) = (x \<le> y)"
| "float_le NegInf _ = True"
| "float_le _ PosInf = True"
| "float_le _ _ = False"

definition float_gt :: "py_float \<Rightarrow> py_float \<Rightarrow> bool" where
  "float_gt x y = float_lt y x"

fun is_finite :: "py_float \<Rightarrow> bool" where
  "is_finite (Finite x) = True"
| "is_finite _ = False"

subsection \<open>Percentiles\<close>

text \<open>
  \<open>np.percentile(a, q)\<close> with the default linear interpolation, on the flattened array:
  the fractional index \<open>q / 100 * (N - 1)\<close> into the sorted values, and the weighted sum
  of its two neighbours, in exact arithmetic. It serves \<open>to_uint8\<close>. An empty array has
  no percentile (\<open>None\<close>); the callers turn that into an error.
\<close>

definition percentile :: "real list \<Rightarrow> real \<Rightarrow> real option" where
  "percentile a q =
     (if a = [] then None
      else let ap = sort a;
               Nx = length ap;
               idx = q / 100 * real (Nx - 1);
               below = nat \<lfloor>idx\<rfloor>;
               above = min (below + 1) (Nx - 1);
               weight_above = idx - real below
           in Some (ap ! below * (1 - weight_above) + ap ! above * weight_above))"

definition astype_float :: "image \<Rightarrow> real list list" where
  "astype_float im = map (map (\<lambda>p. real (unat p))) im"

definition image_percentile :: "image \<Rightarrow> real \<Rightarrow> py_exception + real" where
  "image_percentile im q =
     (case percentile (concat (astype_float im)) q of
        None \<Rightarrow> Inl (IndexError ''percentile of an empty array'')
      | Some p \<Rightarrow> Inr p)"

subsection \<open>Properties of the rounding\<close>

lemmas float_eval =
  round64_def binade_def binade_search_def scale2_def round_half_even_def Let_def

lemma scale2_powi: "scale2 x e = x * 2 powi e"
  by (simp add: scale2_def power_int_def power_inverse field_simps)

lemma round_half_even_near: "\<bar>of_int (round_half_even y) - y\<bar> \<le> 1 / 2"
  unfolding round_half_even_def Let_def by (auto simp: abs_if) linarith+

lemma round_half_even_le:
  assumes "y \<le> of_int M"
  shows "round_half_even y \<le> M"
proof -
  have "\<lfloor>y\<rfloor> \<le> M" using assms by (simp add: floor_le_iff)
  moreover have "\<lfloor>y\<rfloor> + 1 \<le> M" if "y \<noteq> of_int \<lfloor>y\<rfloor>"
  proof -
    have "of_int \<lfloor>y\<rfloor> < y" using that of_int_floor_le[of y] by linarith
    then have "of_int \<lfloor>y\<rfloor> < (of_int M :: real)" using assms by linarith
    then show ?thesis by simp
  qed
  ultimately show ?thesis
    unfolding round_half_even_def Let_def by (auto split: if_splits)
qed

lemma round_half_even_nonneg:
  assumes "0 \<le> y"
  shows "0 \<le> round_half_even y"
proof -
  have "0 \<le> \<lfloor>y\<rfloor>" using assms by simp
  then show ?thesis unfolding round_half_even_def Let_def by (auto split: if_splits)
qed

lemma binade_search_Nil: "binade_search x lo [] = lo"
  by (simp add: binade_search_def)

lemma binade_search_Cons:
  "binade_search x lo (b # bs) =
     binade_search x (if 2 powi (lo + b) \<le> x then lo + b else lo) bs"
  by (simp add: binade_search_def scale2_powi)

lemma binade_search_lower:
  assumes "2 powi lo \<le> x"
  shows "2 powi binade_search x lo bs \<le> x"
  using assms by (induction bs arbitrary: lo) (auto simp: binade_search_Nil binade_search_Cons)

lemma binade_search_below:
  assumes "x < 2 powi lo" and "\<forall>b \<in> set bs. 0 \<le> b"
  shows "binade_search x lo bs = lo"
  using assms
proof (induction bs)
  case Nil
  then show ?case by (simp add: binade_search_Nil)
next
  case (Cons b bs)
  then have "0 \<le> b" by simp
  then have "(2::real) powi lo \<le> 2 powi (lo + b)"
    by (intro power_int_increasing) auto
  with Cons.prems(1) have "\<not> 2 powi (lo + b) \<le> x" by linarith
  with Cons show ?case by (simp add: binade_search_Cons)
qed

lemma binade_search_ge: "\<forall>b \<in> set bs. 0 \<le> b \<Longrightarrow> lo \<le> binade_search x lo bs"
proof (induction bs arbitrary: lo)
  case Nil
  then show ?case by (simp add: binade_search_Nil)
next
  case (Cons b bs)
  then have "0 \<le> b" and "\<forall>b \<in> set bs. 0 \<le> b" by simp_all
  then show ?case using Cons.IH[of "lo + b"] Cons.IH[of lo] by (auto simp: binade_search_Cons)
qed

lemma binade_search_upper:
  assumes "x < 2 powi (lo + 2 ^ k)"
  shows "x < 2 powi (binade_search x lo (map (\<lambda>i. 2 ^ i) (rev [0..<k])) + 1)"
  using assms
proof (induction k arbitrary: lo)
  case 0
  then show ?case by (simp add: binade_search_Nil)
next
  case (Suc k)
  show ?case
  proof (cases "2 powi (lo + 2 ^ k) \<le> x")
    case True
    have "x < 2 powi (lo + 2 ^ k + 2 ^ k)" using Suc.prems by (simp add: add.assoc)
    from Suc.IH[OF this] True show ?thesis by (simp add: binade_search_Cons)
  next
    case False
    then have "x < 2 powi (lo + 2 ^ k)" by simp
    from Suc.IH[OF this] False show ?thesis by (simp add: binade_search_Cons)
  qed
qed

lemma bits_11:
  "map (\<lambda>i. 2 ^ i) (rev [0..<11]) = [1024, 512, 256, 128, 64, 32, 16, 8, 4, 2, 1 :: int]"
  by (simp add: upt_rec)

lemma binade_eq_search:
  "binade x = binade_search x (- 1022) (map (\<lambda>i. 2 ^ i) (rev [0..<11]))"
  unfolding bits_11 by (simp add: binade_def)

lemma binade_ge: "- 1022 \<le> binade x"
  unfolding binade_eq_search by (rule binade_search_ge) auto

lemma binade_lower:
  assumes "2 powi (- 1022) \<le> x"
  shows "2 powi binade x \<le> x"
  unfolding binade_eq_search using assms by (rule binade_search_lower)

lemma binade_upper:
  assumes "x < 2 ^ 1026"
  shows "x < 2 powi (binade x + 1)"
proof -
  have "x < 2 powi (- 1022 + 2 ^ 11)" using assms by (simp add: power_int_def)
  then show ?thesis unfolding binade_eq_search by (rule binade_search_upper)
qed

lemma binade_subnormal:
  assumes "x < 2 powi (- 1022)"
  shows "binade x = - 1022"
  unfolding binade_eq_search using assms by (rule binade_search_below) auto

lemma binade_mono:
  assumes "x \<le> y" and "y < 2 ^ 1026"
  shows "binade x \<le> binade y"
proof (cases "x < 2 powi (- 1022)")
  case True
  then show ?thesis using binade_subnormal[OF True] binade_ge[of y] by simp
next
  case False
  then have lx: "2 powi binade x \<le> x" using binade_lower by simp
  have "y < 2 powi (binade y + 1)" using assms(2) by (rule binade_upper)
  with lx assms(1) have less: "(2::real) powi binade x < 2 powi (binade y + 1)" by linarith
  have "binade x < binade y + 1"
  proof (rule ccontr)
    assume "\<not> binade x < binade y + 1"
    then have "binade y + 1 \<le> binade x" by simp
    then have "(2::real) powi (binade y + 1) \<le> 2 powi binade x"
      by (intro power_int_increasing) auto
    with less show False by linarith
  qed
  then show ?thesis by simp
qed

lemma round64_powi:
  "round64 x = of_int (round_half_even (x * 2 powi (- (binade \<bar>x\<bar> - 52)))) * 2 powi (binade \<bar>x\<bar> - 52)"
  by (simp add: round64_def Let_def scale2_powi)

lemma round64_near: "\<bar>round64 x - x\<bar> \<le> 2 powi (binade \<bar>x\<bar> - 52) / 2"
proof -
  define u :: real where "u = 2 powi (binade \<bar>x\<bar> - 52)"
  have u: "0 < u" by (simp add: u_def)
  have inv: "2 powi (- (binade \<bar>x\<bar> - 52)) = 1 / u"
    unfolding u_def by (simp only: power_int_minus inverse_eq_divide)
  have "round64 x - x = (of_int (round_half_even (x / u)) - x / u) * u"
    using u unfolding round64_powi inv u_def[symmetric] by (simp add: field_simps)
  then have "\<bar>round64 x - x\<bar> = \<bar>of_int (round_half_even (x / u)) - x / u\<bar> * u"
    using u by (simp add: abs_mult)
  also have "\<dots> \<le> (1 / 2) * u"
    using round_half_even_near[of "x / u"] u by (intro mult_right_mono) auto
  finally show ?thesis by (simp add: u_def)
qed

lemma round64_nonneg:
  assumes "0 \<le> z"
  shows "0 \<le> round64 z"
proof -
  have "0 \<le> z * 2 powi (- (binade \<bar>z\<bar> - 52))" using assms by simp
  then have "0 \<le> round_half_even (z * 2 powi (- (binade \<bar>z\<bar> - 52)))"
    by (rule round_half_even_nonneg)
  then show ?thesis unfolding round64_powi by simp
qed

text \<open>
  The relative error of a rounding is at most \<open>2 powi (- 53)\<close>, and for a subnormal
  result the absolute error is at most \<open>2 powi (- 1075)\<close>.
\<close>

lemma round64_upper:
  assumes "0 \<le> z"
  shows "round64 z \<le> z * (1 + 2 powi (- 53)) + 2 powi (- 1075)"
proof -
  have b: "2 powi binade z \<le> z + 2 powi (- 1022)"
  proof (cases "z < 2 powi (- 1022)")
    case True
    then show ?thesis using binade_subnormal[OF True] assms by simp
  next
    case False
    then have "2 powi binade z \<le> z" using binade_lower by simp
    then show ?thesis by (simp add: add_increasing2)
  qed
  have az: "\<bar>z\<bar> = z" using assms by simp
  have "2 powi (binade z - 52) = 2 powi binade z * (2::real) powi (- 52)"
    by (simp add: power_int_diff power_int_minus field_simps)
  also have "\<dots> \<le> (z + 2 powi (- 1022)) * 2 powi (- 52)"
    using b by (intro mult_right_mono) auto
  finally have u: "2 powi (binade z - 52) * (1 / 2) \<le> (z + 2 powi (- 1022)) * 2 powi (- 52) * (1 / 2)"
    by (intro mult_right_mono) auto
  have half: "(1 / 2 :: real) = 2 powi (- 1)" by (simp add: power_int_minus)
  have "(2::real) powi (- 52) * 2 powi (- 1) = 2 powi (- 52 + - 1)"
    by (rule power_int_add[symmetric]) simp
  then have p53: "(2::real) powi (- 52) * (1 / 2) = 2 powi (- 53)"
    unfolding half by simp
  have p1075: "(2::real) powi (- 1022) * 2 powi (- 53) = 2 powi (- 1075)"
    by (simp add: power_int_add[symmetric])
  have "(z + 2 powi (- 1022)) * 2 powi (- 52) * (1 / 2) = (z + 2 powi (- 1022)) * (2 powi (- 52) * (1 / 2))"
    by (simp only: mult.assoc)
  also have "\<dots> = z * 2 powi (- 53) + 2 powi (- 1075)"
    unfolding p53 by (simp only: distrib_right p1075)
  finally have e: "(z + 2 powi (- 1022)) * 2 powi (- 52) * (1 / 2) = z * 2 powi (- 53) + 2 powi (- 1075)" .
  from round64_near[of z] have "round64 z - z \<le> 2 powi (binade z - 52) * (1 / 2)"
    unfolding az by (simp only: abs_le_iff times_divide_eq_right mult_1_right)
  with u have "round64 z - z \<le> z * 2 powi (- 53) + 2 powi (- 1075)"
    unfolding e by linarith
  then show ?thesis by (simp only: distrib_left mult_1_right)
qed

text \<open>
  Rounding does not cross a double: a product that is at most a double \<open>x\<close> rounds to at
  most \<open>x\<close>.
\<close>

lemma round64_le_representable:
  assumes rep: "is_binary64 x" and z: "0 \<le> z" "z \<le> x"
  shows "round64 z \<le> x"
proof -
  define ex where "ex = binade \<bar>x\<bar> - 52"
  define ez where "ez = binade \<bar>z\<bar> - 52"
  define M where "M = round_half_even (x * 2 powi (- ex))"
  from rep have x1024: "\<bar>x\<bar> < 2 ^ 1024" and fx: "round64 x = x"
    by (simp_all add: is_binary64_def)
  have x: "x = of_int M * 2 powi ex"
    using fx unfolding round64_powi M_def ex_def by simp
  have "\<bar>x\<bar> < 2 ^ 1026"
  proof -
    have "(2::real) ^ 1024 \<le> 2 ^ 1026" by (intro power_increasing) auto
    with x1024 show ?thesis by linarith
  qed
  then have "binade \<bar>z\<bar> \<le> binade \<bar>x\<bar>" using z by (intro binade_mono) auto
  then have d: "0 \<le> ex - ez" by (simp add: ex_def ez_def)
  have "(2::real) powi ex * 2 powi (- ez) = 2 powi (ex - ez)"
    by (simp add: power_int_diff power_int_minus field_simps)
  also have "\<dots> = 2 ^ nat (ex - ez)" using d by (simp add: power_int_def)
  finally have pw: "(2::real) powi ex * 2 powi (- ez) = 2 ^ nat (ex - ez)" .
  have "x * 2 powi (- ez) = of_int M * (2 powi ex * 2 powi (- ez))"
    by (subst x) (simp add: mult.assoc)
  also have "\<dots> = of_int (M * 2 ^ nat (ex - ez))" unfolding pw by simp
  finally have xm: "x * 2 powi (- ez) = of_int (M * 2 ^ nat (ex - ez))" .
  have "z * 2 powi (- ez) \<le> x * 2 powi (- ez)"
    using z by (intro mult_right_mono) auto
  then have "round_half_even (z * 2 powi (- ez)) \<le> M * 2 ^ nat (ex - ez)"
    unfolding xm by (rule round_half_even_le)
  then have "(of_int (round_half_even (z * 2 powi (- ez))) :: real) \<le> of_int (M * 2 ^ nat (ex - ez))"
    by (simp only: of_int_le_iff)
  then have "of_int (round_half_even (z * 2 powi (- ez))) * 2 powi ez
               \<le> (of_int (M * 2 ^ nat (ex - ez)) :: real) * 2 powi ez"
    by (intro mult_right_mono) auto
  also have "\<dots> = x * 2 powi (- ez) * 2 powi ez" unfolding xm ..
  also have "\<dots> = x" by (simp add: power_int_minus field_simps)
  finally show ?thesis unfolding round64_powi ez_def .
qed

lemma float_of_real_finite:
  assumes "\<bar>round64 x\<bar> < 2 ^ 1024"
  shows "float_of_real x = Finite (round64 x)"
  using assms by (simp add: float_of_real_def Let_def)

text \<open>The literal \<open>0.8\<close>, and the doubles that the examples meet.\<close>

lemma round64_08: "round64 (4 / 5) = 3602879701896397 / 4503599627370496"
  by (simp add: float_eval)

lemma float_of_real_08: "float_of_real (4 / 5) = Finite (3602879701896397 / 4503599627370496)"
  by (simp add: float_of_real_def round64_08)

lemma step_08_bound:
  assumes "0 \<le> x"
  shows "round64 (x * (3602879701896397 / 4503599627370496)) \<le> 8001 / 10000 * x + 2 powi (- 1075)"
proof -
  define c :: real where "c = 3602879701896397 / 4503599627370496"
  have "0 \<le> x * c" using assms by (simp add: c_def)
  from round64_upper[OF this]
  have "round64 (x * c) \<le> x * (c * (1 + 2 powi (- 53))) + 2 powi (- 1075)"
    by (simp add: algebra_simps)
  moreover have "c * (1 + 2 powi (- 53)) \<le> (8001 / 10000 :: real)"
    by (simp add: c_def power_int_def power_divide)
  then have "x * (c * (1 + 2 powi (- 53))) \<le> x * (8001 / 10000)"
    using assms by (intro mult_left_mono) auto
  ultimately show ?thesis unfolding c_def by (simp add: mult.commute)
qed

section \<open>Settings (acquisitions/pipeline\_plate\_settings.py)\<close>

text \<open>
  The numbers of the settings are Python floats, or integers small enough for a double
  to hold them exactly (\<open>2 ** 14\<close>, \<open>2 ** 15\<close>, 1 and 10), which the model writes as that
  double. A float literal denotes the double nearest to its decimal value: the literals
  \<open>40.0\<close>, \<open>50.0\<close>, \<open>500.0\<close> and \<open>1.0\<close> are the doubles 40, 50, 500 and 1, and
  \<open>float_of_real 0.8\<close> is the literal \<open>0.8\<close>, a double slightly above four fifths.
\<close>

record stack_settings =
  stage_label :: string
  relative_top :: py_float
  relative_bottom :: py_float
  step_size :: py_float

record channel_settings =
  laser_line :: string
  laser_name :: string
  laser_power :: py_float
  exposure_time :: py_float

record autoexposure_settings =
  min_intensity :: py_float
  max_intensity :: py_float
  min_exposure_time :: py_float
  max_exposure_time :: py_float
  default_exposure_time :: py_float
  min_laser_power :: py_float
  relative_exposure_step :: py_float
  z_step_size :: py_float

definition DEFAULT_LASER_POWER :: py_float where
  "DEFAULT_LASER_POWER = Finite 10"

definition DEFAULT_EXPOSURE_TIME :: py_float where
  "DEFAULT_EXPOSURE_TIME = Finite 50"

definition STAGE_LABEL :: string where
  "STAGE_LABEL = ''PiezoZ''"

definition gfp_channel_settings :: channel_settings where
  "gfp_channel_settings =
     \<lparr>laser_line = ''Andor ILE-A'', laser_name = ''Laser 488-Power Setpoint'',
      laser_power = DEFAULT_LASER_POWER, exposure_time = DEFAULT_EXPOSURE_TIME\<rparr>"

definition pipeline_autoexposure_settings :: autoexposure_settings where
  "pipeline_autoexposure_settings =
     \<lparr>min_intensity = Finite (2 ^ 14),
      max_intensity = Finite (2 ^ 15),
      min_exposure_time = Finite 40,
      max_exposure_time = Finite 500,
      default_exposure_time = DEFAULT_EXPOSURE_TIME,
      min_laser_power = Finite 1,
      relative_exposure_step = float_of_real 0.8,
      z_step_size = Finite 1\<rparr>"

section \<open>Device operations (operations.py)\<close>

subsection \<open>\<open>check_slice_for_overexposure\<close>\<close>

text \<open>
  The function updates its local variables in sequence; the model keeps that order:
  the exposure time is lowered first, and only then compared with the minimum. The
  products are products of doubles. \<open>np.percentile\<close> is a library call and a parameter
  of the model: \<open>np_percentile snap_data 99.9\<close> is what the call returns or raises.
\<close>

definition check_slice_for_overexposure ::
  "(image \<Rightarrow> real \<Rightarrow> py_exception + py_float) \<Rightarrow> py_float \<Rightarrow> py_float \<Rightarrow> image \<Rightarrow>
     autoexposure_settings \<Rightarrow> py_exception + (py_float \<times> py_float \<times> bool)" where
  "check_slice_for_overexposure np_percentile laser_power0 exposure_time0 snap_data settings =
     (case np_percentile snap_data 99.9 of
        Inl e \<Rightarrow> Inl e
      | Inr p \<Rightarrow>
          let slice_was_overexposed = float_gt p (max_intensity settings) in
          if slice_was_overexposed then
            let exposure_time1 = float_mul exposure_time0 (relative_exposure_step settings) in
            if float_lt exposure_time1 (min_exposure_time settings)
            then Inr (float_mul laser_power0 (relative_exposure_step settings),
                      default_exposure_time settings, slice_was_overexposed)
            else Inr (laser_power0, exposure_time1, slice_was_overexposed)
          else Inr (laser_power0, exposure_time0, slice_was_overexposed))"

text \<open>
  Repeated application: call \<open>n\<close> (counted from 0) receives the laser power and exposure
  time that call \<open>n - 1\<close> returned, and the \<open>n\<close>-th frame of the camera.
  \<open>reduced_exposure step et n\<close> is the exposure time after \<open>n\<close> multiplications by the
  step, each one rounded.
\<close>

fun nth_check ::
  "(image \<Rightarrow> real \<Rightarrow> py_exception + py_float) \<Rightarrow> autoexposure_settings \<Rightarrow> (nat \<Rightarrow> image) \<Rightarrow>
     py_float \<Rightarrow> py_float \<Rightarrow> nat \<Rightarrow> py_exception + (py_float \<times> py_float \<times> bool)" where
  "nth_check np_percentile settings snaps lp et 0 =
     check_slice_for_overexposure np_percentile lp et (snaps 0) settings"
| "nth_check np_percentile settings snaps lp et (Suc n) =
     (case nth_check np_percentile settings snaps lp et n of
        Inl e \<Rightarrow> Inl e
      | Inr (lp', et', _) \<Rightarrow>
          check_slice_for_overexposure np_percentile lp' et' (snaps (Suc n)) settings)"

fun reduced_exposure :: "py_float \<Rightarrow> py_float \<Rightarrow> nat \<Rightarrow> py_float" where
  "reduced_exposure step et 0 = et"
| "reduced_exposure step et (Suc n) = float_mul (reduced_exposure step et n) step"

definition slice_overexposed ::
  "(image \<Rightarrow> real \<Rightarrow> py_exception + py_float) \<Rightarrow> image \<Rightarrow> autoexposure_settings \<Rightarrow> bool" where
  "slice_overexposed np_percentile snap settings =
     (case np_percentile snap 99.9 of
        Inl e \<Rightarrow> False
      | Inr p \<Rightarrow> float_gt p (max_intensity settings))"

text \<open>
  On a frame of one pixel \<open>np.percentile\<close> returns the value of that pixel, whatever the
  percentile asked. The examples below use such frames and no others.
\<close>

definition one_pixel_percentile :: "image \<Rightarrow> real \<Rightarrow> py_exception + py_float" where
  "one_pixel_percentile snap q =
     (case snap of
        [[w]] \<Rightarrow> Inr (Finite (real (unat w)))
      | _ \<Rightarrow> Inl (ValueError ''not a frame of one pixel''))"

subsection \<open>The control core and \<open>move_z\<close>\<close>

text \<open>
  The control core is a remote object. Its state is what the operations read and write:
  the position of each stage, the device properties and the camera exposure. How a
  stage answers a command is a parameter of the model (\<open>stage_response\<close>: the label, the
  position before the move and the command give the position the stage reports once it
  has settled), so nothing is assumed about the hardware reaching its target.
\<close>

datatype stage_command = SetPosition py_float | SetRelativePosition py_float

record mm_core =
  stage_position :: "string \<Rightarrow> py_float"
  stage_response :: "string \<Rightarrow> py_float \<Rightarrow> stage_command \<Rightarrow> py_float"
  device_property :: "string \<times> string \<Rightarrow> py_float option"
  exposure :: py_float

definition setPosition :: "mm_core \<Rightarrow> string \<Rightarrow> py_float \<Rightarrow> mm_core" where
  "setPosition core label position =
     core\<lparr>stage_position := (stage_position core)
        (label := stage_response core label (stage_position core label) (SetPosition position))\<rparr>"

definition setRelativePosition :: "mm_core \<Rightarrow> string \<Rightarrow> py_float \<Rightarrow> mm_core" where
  "setRelativePosition core label offset =
     core\<lparr>stage_position := (stage_position core)
        (label := stage_response core label (stage_position core label)
                    (SetRelativePosition offset))\<rparr>"

definition getPosition :: "mm_core \<Rightarrow> string \<Rightarrow> py_float" where
  "getPosition core label = stage_position core label"

definition setProperty :: "mm_core \<Rightarrow> string \<Rightarrow> string \<Rightarrow> py_float \<Rightarrow> mm_core" where
  "setProperty core device prop v =
     core\<lparr>device_property := (device_property core)((device, prop) \<mapsto> v)\<rparr>"

definition setExposure :: "mm_core \<Rightarrow> py_float \<Rightarrow> mm_core" where
  "setExposure core t = core\<lparr>exposure := t\<rparr>"

definition quoted :: "string \<Rightarrow> string" where
  "quoted s = CHR 0x27 # s @ [CHR 0x27]"

text \<open>
  Python's built-in \<open>float(x)\<close>. A float is returned as it is; an integer converts to
  the nearest double, and \<open>OverflowError\<close> is raised when that is beyond the largest
  double; a string is parsed, and \<open>ValueError\<close> is raised when it is no float literal
  (the grammar of float literals is the parameter \<open>parse\<close>); any other object, \<open>None\<close>
  included, raises \<open>TypeError\<close>, here with the message of Python 3.9 and earlier.
\<close>

definition builtin_float ::
  "(string \<Rightarrow> py_float option) \<Rightarrow> py_value \<Rightarrow> py_exception + py_float" where
  "builtin_float parse v =
     (case v of
        PyFloat f \<Rightarrow> Inr f
      | PyInt i \<Rightarrow>
          (case float_of_real (real_of_int i) of
             Finite x \<Rightarrow> Inr (Finite x)
           | _ \<Rightarrow> Inl (OverflowError ''int too large to convert to float''))
      | PyBool b \<Rightarrow> Inr (Finite (if b then 1 else 0))
      | PyStr s \<Rightarrow>
          (case parse s of
             Some f \<Rightarrow> Inr f
           | None \<Rightarrow> Inl (ValueError (''could not convert string to float: '' @ quoted s)))
      | PyNone \<Rightarrow>
          Inl (TypeError (''float() argument must be a string or a number, not ''
                            @ quoted ''NoneType''))
      | PyTuple _ \<Rightarrow>
          Inl (TypeError (''float() argument must be a string or a number, not ''
                            @ quoted ''tuple'')))"

text \<open>
  \<open>move_z\<close>: the \<open>try\<close> around \<open>float(position)\<close> has one handler, for \<open>ValueError\<close>;
  every other exception of the conversion leaves \<open>move_z\<close> as it is.
\<close>

definition move_z ::
  "(string \<Rightarrow> py_float option) \<Rightarrow> mm_core \<Rightarrow> string \<Rightarrow> py_value \<Rightarrow> py_value \<Rightarrow>
     py_exception + (mm_core \<times> py_float)" where
  "move_z parse core label position kind =
     (if kind \<notin> set [PyStr ''relative'', PyStr ''absolute'']
      then Inl (ValueError (''`kind` must be either '' @ quoted ''relative'' @ '' or ''
                              @ quoted ''absolute''))
      else
        (case (case builtin_float parse position of
                 Inl (ValueError _) \<Rightarrow> Inl (TypeError ''`position` cannot be coerced to float'')
               | Inl e \<Rightarrow> Inl e
               | Inr f \<Rightarrow> Inr f) of
           Inl e \<Rightarrow> Inl e
         | Inr position' \<Rightarrow>
             if position' = NaN then Inl (TypeError ''`position` cannot be nan'')
             else
               let core' =
                     (if kind = PyStr ''absolute'' then setPosition core label position'
                      else if kind = PyStr ''relative''
                      then setRelativePosition core label position'
                      else core)
               in Inr (core', getPosition core' label)))"

subsection \<open>\<open>autoexposure\<close>\<close>

text \<open>
  The sweep is a \<open>while\<close> loop that restarts whenever a slice is over-exposed, so it need
  not terminate: the loop is a partial function, and \<open>None\<close> is a run that never
  returns. The camera is the parameter \<open>acquire_snap\<close>, the frame that a snap gives in
  the present state of the hardware. The function returns what its \<open>return\<close> statement
  names, as a Python value; the laser power and the exposure time it has chosen are
  left in the channel settings, which it mutates.
\<close>

partial_function (option) autoexposure_loop ::
  "(string \<Rightarrow> py_float option) \<Rightarrow> (image \<Rightarrow> real \<Rightarrow> py_exception + py_float) \<Rightarrow>
   (mm_core \<Rightarrow> image) \<Rightarrow> stack_settings \<Rightarrow> autoexposure_settings \<Rightarrow> mm_core \<Rightarrow>
   channel_settings \<Rightarrow> py_float \<Rightarrow> (py_exception + mm_core \<times> channel_settings) option" where
  "autoexposure_loop parse np_percentile acquire_snap stack ae core ch current_z =
     (if float_le current_z (relative_top stack) then
        (case check_slice_for_overexposure np_percentile (laser_power ch) (exposure_time ch)
                (acquire_snap core) ae of
           Inl e \<Rightarrow> Some (Inl e)
         | Inr (lp, et, slice_was_overexposed) \<Rightarrow>
             (let ch' = (if slice_was_overexposed
                         then ch\<lparr>laser_power := lp, exposure_time := et\<rparr> else ch);
                  core' = (if slice_was_overexposed
                           then setExposure
                                  (setProperty core (laser_line ch') (laser_name ch')
                                     (laser_power ch'))
                                  (exposure_time ch')
                           else core);
                  new_z = (if slice_was_overexposed then relative_bottom stack
                           else float_add current_z (step_size stack))
              in case move_z parse core' (stage_label stack) (PyFloat new_z)
                        (PyStr ''absolute'') of
                   Inl e \<Rightarrow> Some (Inl e)
                 | Inr (core'', z') \<Rightarrow>
                     autoexposure_loop parse np_percentile acquire_snap stack ae core'' ch' z'))
      else Some (Inr (core, ch)))"

definition autoexposure ::
  "(string \<Rightarrow> py_float option) \<Rightarrow> (image \<Rightarrow> real \<Rightarrow> py_exception + py_float) \<Rightarrow>
   (mm_core \<Rightarrow> image) \<Rightarrow> mm_core \<Rightarrow> stack_settings \<Rightarrow> channel_settings \<Rightarrow>
   autoexposure_settings \<Rightarrow> (py_exception + mm_core \<times> channel_settings \<times> py_value) option" where
  "autoexposure parse np_percentile acquire_snap core stack ch ae =
     (let autoexposure_did_succeed = True in
      case move_z parse core (stage_label stack) (PyFloat (relative_bottom stack))
             (PyStr ''relative'') of
        Inl e \<Rightarrow> Some (Inl e)
      | Inr (core', current_z) \<Rightarrow>
          (case autoexposure_loop parse np_percentile acquire_snap stack ae core' ch current_z of
             None \<Rightarrow> None
           | Some (Inl e) \<Rightarrow> Some (Inl e)
           | Some (Inr (core'', ch')) \<Rightarrow>
               Some (Inr (core'', ch', PyBool autoexposure_did_succeed))))"

text \<open>
  A stage that goes where it is told, and a camera that saturates at exposure times of
  50 ms and more: the hardware of the examples below.
\<close>

definition ideal_core :: mm_core where
  "ideal_core =
     \<lparr>stage_position = (\<lambda>_. Finite 0),
      stage_response = (\<lambda>label current cmd.
         case cmd of
           SetPosition x \<Rightarrow> x
         | SetRelativePosition d \<Rightarrow> float_add current d),
      device_property = Map.empty,
      exposure = Finite 50\<rparr>"

definition saturating_camera :: "mm_core \<Rightarrow> image" where
  "saturating_camera core = (if float_le (Finite 50) (exposure core) then [[65535]] else [[100]])"

definition short_stack_settings :: stack_settings where
  "short_stack_settings =
     \<lparr>stage_label = STAGE_LABEL, relative_top = Finite 1, relative_bottom = Finite (- 1),
      step_size = Finite 1\<rparr>"

subsection \<open>Properties of \<open>check_slice_for_overexposure\<close>\<close>

lemma one_pixel_percentile_frame: "one_pixel_percentile [[w]] q = Inr (Finite (real (unat w)))"
  by (simp add: one_pixel_percentile_def)

lemma pipeline_step:
  "relative_exposure_step pipeline_autoexposure_settings
     = Finite (3602879701896397 / 4503599627370496)"
  by (simp add: pipeline_autoexposure_settings_def float_of_real_08)

lemma pipeline_limits:
  "max_intensity pipeline_autoexposure_settings = Finite 32768"
  "min_exposure_time pipeline_autoexposure_settings = Finite 40"
  "default_exposure_time pipeline_autoexposure_settings = Finite 50"
  "min_laser_power pipeline_autoexposure_settings = Finite 1"
  by (simp_all add: pipeline_autoexposure_settings_def DEFAULT_EXPOSURE_TIME_def)

lemma mul_50_step:
  "float_mul (Finite 50) (Finite (3602879701896397 / 4503599627370496)) = Finite 40"
  by (simp add: float_of_real_def float_eval)

lemma mul_40_step:
  "float_mul (Finite 40) (Finite (3602879701896397 / 4503599627370496)) = Finite 32"
  by (simp add: float_of_real_def float_eval)

lemma mul_10_step:
  "float_mul (Finite 10) (Finite (3602879701896397 / 4503599627370496)) = Finite 8"
  by (simp add: float_of_real_def float_eval)

lemma mul_1_step:
  "float_mul (Finite 1) (Finite (3602879701896397 / 4503599627370496))
     = Finite (3602879701896397 / 4503599627370496)"
  by (simp add: float_of_real_def float_eval)

text \<open>
  The double just below 50: its product with the step is 39.999999999999996 and a
  little more, which rounds up to 40, so the exposure time is not below the minimum.
\<close>

lemma mul_below_50_step:
  "float_mul (Finite (7036874417766399 / 140737488355328))
     (Finite (3602879701896397 / 4503599627370496)) = Finite 40"
  by (simp add: float_of_real_def float_eval)

lemma below_50_is_binary64: "is_binary64 (7036874417766399 / 140737488355328)"
  by (simp add: is_binary64_def float_eval)

lemma check_saturated:
  "check_slice_for_overexposure one_pixel_percentile (Finite 10) (Finite 50) [[65535]]
     pipeline_autoexposure_settings = Inr (Finite 10, Finite 40, True)"
  by (simp add: check_slice_for_overexposure_def one_pixel_percentile_frame pipeline_step
      pipeline_limits mul_50_step float_gt_def Let_def del: float_mul.simps)

lemma check_dark:
  "check_slice_for_overexposure one_pixel_percentile lp et [[100]] pipeline_autoexposure_settings
     = Inr (lp, et, False)"
  by (simp add: check_slice_for_overexposure_def one_pixel_percentile_frame float_gt_def
      pipeline_limits)

lemma check_over_keep:
  assumes "slice_overexposed np_percentile snap s"
      and "\<not> float_lt (float_mul et (relative_exposure_step s)) (min_exposure_time s)"
  shows "check_slice_for_overexposure np_percentile lp et snap s
           = Inr (lp, float_mul et (relative_exposure_step s), True)"
  using assms
  by (auto simp: slice_overexposed_def check_slice_for_overexposure_def Let_def split: sum.splits)

lemma check_over_floor:
  assumes "slice_overexposed np_percentile snap s"
      and "float_lt (float_mul et (relative_exposure_step s)) (min_exposure_time s)"
  shows "check_slice_for_overexposure np_percentile lp et snap s =
           Inr (float_mul lp (relative_exposure_step s), default_exposure_time s, True)"
  using assms
  by (auto simp: slice_overexposed_def check_slice_for_overexposure_def Let_def split: sum.splits)

lemma check_not_over:
  assumes "np_percentile snap 99.9 = Inr p" and "\<not> slice_overexposed np_percentile snap s"
  shows "check_slice_for_overexposure np_percentile lp et snap s = Inr (lp, et, False)"
  using assms
  by (auto simp: slice_overexposed_def check_slice_for_overexposure_def Let_def split: sum.splits)

lemma nth_check_prefix:
  assumes run: "\<forall>k<m. slice_overexposed np_percentile (snaps k) s \<and>
                  \<not> float_lt (reduced_exposure (relative_exposure_step s) et (Suc k))
                       (min_exposure_time s)"
  shows "k < m \<Longrightarrow>
         nth_check np_percentile s snaps lp et k
           = Inr (lp, reduced_exposure (relative_exposure_step s) et (Suc k), True)"
proof (induction k)
  case 0
  with run have "slice_overexposed np_percentile (snaps 0) s"
    and "\<not> float_lt (float_mul et (relative_exposure_step s)) (min_exposure_time s)" by auto
  then show ?case using check_over_keep[of np_percentile "snaps 0" s et lp] by simp
next
  case (Suc k)
  then have prev: "nth_check np_percentile s snaps lp et k
                     = Inr (lp, reduced_exposure (relative_exposure_step s) et (Suc k), True)"
    by simp
  from Suc.prems run have "slice_overexposed np_percentile (snaps (Suc k)) s"
    and "\<not> float_lt (reduced_exposure (relative_exposure_step s) et (Suc (Suc k)))
             (min_exposure_time s)" by auto
  then have "check_slice_for_overexposure np_percentile lp
               (reduced_exposure (relative_exposure_step s) et (Suc k)) (snaps (Suc k)) s
      = Inr (lp, reduced_exposure (relative_exposure_step s) et (Suc (Suc k)), True)"
    using check_over_keep[of np_percentile "snaps (Suc k)" s
        "reduced_exposure (relative_exposure_step s) et (Suc k)" lp] by simp
  then show ?case using prev by simp
qed

lemma nth_check_input:
  assumes run: "\<forall>k<m. slice_overexposed np_percentile (snaps k) s \<and>
                  \<not> float_lt (reduced_exposure (relative_exposure_step s) et (Suc k))
                       (min_exposure_time s)"
  shows "nth_check np_percentile s snaps lp et m =
           check_slice_for_overexposure np_percentile lp
             (reduced_exposure (relative_exposure_step s) et m) (snaps m) s"
proof (cases m)
  case 0
  then show ?thesis by simp
next
  case (Suc j)
  then have "nth_check np_percentile s snaps lp et j
               = Inr (lp, reduced_exposure (relative_exposure_step s) et (Suc j), True)"
    using nth_check_prefix[OF run, of j] by simp
  then show ?thesis using Suc by simp
qed

text \<open>
  The exposure time after \<open>n\<close> rounded multiplications by the literal 0.8: it stays a
  finite double, and is at most \<open>0.8001 ^ n\<close> times the start, up to the smallest
  subnormal numbers.
\<close>

lemma reduced_exposure_bound:
  assumes "0 \<le> x" and "x < 2 ^ 1024"
  shows "\<exists>e. reduced_exposure (Finite (3602879701896397 / 4503599627370496)) (Finite x) n
                = Finite e \<and>
             0 \<le> e \<and> e \<le> max x 1 \<and> e \<le> (8001 / 10000) ^ n * x + 2 powi (- 1072)"
proof (induction n)
  case 0
  then show ?case using assms by simp
next
  case (Suc n)
  define c :: real where "c = 3602879701896397 / 4503599627370496"
  define t :: real where "t = 2 powi (- 1075)"
  from Suc obtain e where e: "reduced_exposure (Finite c) (Finite x) n = Finite e"
    and e0: "0 \<le> e" and emax: "e \<le> max x 1"
    and ebound: "e \<le> (8001 / 10000) ^ n * x + 2 powi (- 1072)"
    unfolding c_def by blast
  have t0: "0 < t" by (simp add: t_def)
  have t1: "t \<le> 1 / 10"
    unfolding t_def by (simp add: power_int_def power_divide)
  have "(2::real) powi (- 1075) * 2 powi 3 = 2 powi (- 1075 + 3)"
    by (rule power_int_add[symmetric]) simp
  then have t8: "(2::real) powi (- 1072) = 8 * t" by (simp add: t_def)
  define e' where "e' = round64 (e * c)"
  have e'0: "0 \<le> e'" unfolding e'_def by (rule round64_nonneg) (simp add: e0 c_def)
  have step: "e' \<le> 8001 / 10000 * e + t"
    unfolding e'_def c_def t_def using e0 by (rule step_08_bound)
  have e'max: "e' \<le> max x 1"
  proof -
    have "8001 / 10000 * e + t \<le> 8001 / 10000 * max x 1 + 1 / 10 * max x 1"
      using emax t1 by (intro add_mono mult_left_mono) (auto simp: max_def)
    also have "\<dots> \<le> max x 1" by (simp add: max_def)
    finally show ?thesis using step by linarith
  qed
  have "max x 1 < (2::real) ^ 1024" using assms(2) by (simp add: max_def)
  with e'0 e'max have "\<bar>e'\<bar> < 2 ^ 1024" by simp
  then have fin: "float_of_real (e * c) = Finite e'"
    unfolding e'_def by (rule float_of_real_finite)
  have "8001 / 10000 * e \<le> 8001 / 10000 * ((8001 / 10000) ^ n * x + 8 * t)"
    using ebound unfolding t8 by (intro mult_left_mono) auto
  with step have "e' \<le> 8001 / 10000 * ((8001 / 10000) ^ n * x + 8 * t) + t"
    by linarith
  also have "\<dots> \<le> (8001 / 10000) ^ Suc n * x + 8 * t"
    using t0 by (simp add: algebra_simps)
  finally have "e' \<le> (8001 / 10000) ^ Suc n * x + 2 powi (- 1072)" unfolding t8 .
  with e fin e'0 e'max show ?case unfolding c_def[symmetric] by simp
qed

lemma floor_exists:
  assumes "0 < x" and "x < 2 ^ 1024" and "2 powi (- 1022) \<le> m"
  shows "\<exists>n. float_lt (reduced_exposure (Finite (3602879701896397 / 4503599627370496))
                        (Finite x) (Suc n)) (Finite m)"
proof -
  have "(2::real) powi (- 1072) * 2 \<le> 2 powi (- 1022)"
    by (simp add: power_int_def power_divide)
  then have small: "2 powi (- 1072) \<le> m / 2" using assms(3) by linarith
  have mpos: "0 < m"
  proof -
    have "(0::real) < 2 powi (- 1022)" by simp
    with assms(3) show ?thesis by linarith
  qed
  then have "0 < m / 2 / x" using assms(1) by simp
  then obtain n where n: "(8001 / 10000 :: real) ^ n < m / 2 / x"
    using real_arch_pow_inv[of "m / 2 / x" "8001 / 10000"] by auto
  have "(8001 / 10000 :: real) ^ Suc n \<le> (8001 / 10000) ^ n"
    by (intro power_decreasing) auto
  then have "(8001 / 10000 :: real) ^ Suc n < m / 2 / x" using n by linarith
  then have lt: "(8001 / 10000) ^ Suc n * x < m / 2"
    by (rule iffD1[OF pos_less_divide_eq[OF assms(1)]])
  from reduced_exposure_bound[of x "Suc n"] assms obtain e
    where e: "reduced_exposure (Finite (3602879701896397 / 4503599627370496)) (Finite x) (Suc n)
                = Finite e"
      and b: "e \<le> (8001 / 10000) ^ Suc n * x + 2 powi (- 1072)"
    by auto
  from b lt small have "e < m" by linarith
  then show ?thesis by (intro exI[of _ n]) (simp only: e float_lt.simps)
qed

lemma twelve_steps_from_500:
  assumes "0 < x" and "x \<le> 500"
  shows "float_lt (reduced_exposure (Finite (3602879701896397 / 4503599627370496))
                     (Finite x) (Suc 11)) (Finite 40)"
proof -
  have x1024: "x < 2 ^ 1024"
  proof -
    have "(500::real) < 2 ^ 1024" by simp
    with assms(2) show ?thesis by linarith
  qed
  from reduced_exposure_bound[of x "Suc 11"] assms x1024 obtain e
    where e: "reduced_exposure (Finite (3602879701896397 / 4503599627370496)) (Finite x) (Suc 11)
                = Finite e"
      and b: "e \<le> (8001 / 10000) ^ Suc 11 * x + 2 powi (- 1072)"
    by auto
  have "(8001 / 10000) ^ Suc 11 * x \<le> (8001 / 10000 :: real) ^ Suc 11 * 500"
    using assms by (intro mult_left_mono) auto
  also have "\<dots> < 39" by (simp add: power_divide)
  finally have "(8001 / 10000) ^ Suc 11 * x < 39" .
  moreover have "(2::real) powi (- 1072) \<le> 1"
    by (simp add: power_int_def power_divide)
  ultimately have "e < 40" using b by linarith
  then show ?thesis by (simp only: e float_lt.simps)
qed

text \<open>
  Among the smallest subnormal numbers the rounded product no longer decreases: twice
  the smallest positive double, times 0.8, rounds back to itself. Hence the lower
  bound on the minimum exposure time in the iteration below.
\<close>

lemma subnormal_products_stall:
  "float_mul (Finite (1 / 2 ^ 1073)) (float_of_real 0.8) = Finite (1 / 2 ^ 1073)"
  by (simp add: float_of_real_08) (simp add: float_of_real_def float_eval)

text \<open>
  Claim C2. For every slice image and every pair of laser power and exposure time,
  \<open>check_slice_for_overexposure\<close> declares the slice over-exposed exactly when the 99.9th
  percentile of the pixel intensities, as \<open>np.percentile\<close> returns it, exceeds
  \<open>max_intensity\<close>. When over-exposed it returns the exposure time multiplied by
  \<open>relative_exposure_step\<close>, unless that product, a rounded product of doubles, is below
  \<open>min_exposure_time\<close>: then it returns \<open>default_exposure_time\<close> and the laser power
  multiplied by \<open>relative_exposure_step\<close>. When not over-exposed it returns its inputs
  unchanged.
\<close>

theorem check_slice_for_overexposure_cases:
  assumes "np_percentile snap 99.9 = Inr p"
  shows "\<exists>lp' et' over.
           check_slice_for_overexposure np_percentile lp et snap s = Inr (lp', et', over) \<and>
           (over \<longleftrightarrow> float_gt p (max_intensity s)) \<and>
           (over \<and> \<not> float_lt (float_mul et (relative_exposure_step s)) (min_exposure_time s) \<longrightarrow>
              lp' = lp \<and> et' = float_mul et (relative_exposure_step s)) \<and>
           (over \<and> float_lt (float_mul et (relative_exposure_step s)) (min_exposure_time s) \<longrightarrow>
              lp' = float_mul lp (relative_exposure_step s) \<and> et' = default_exposure_time s) \<and>
           (\<not> over \<longrightarrow> lp' = lp \<and> et' = et)"
  using assms by (simp add: check_slice_for_overexposure_def Let_def)

text \<open>
  Two instances with the settings of the pipeline and a saturated frame. From 40 ms the
  product 32 is below the minimum: the exposure time is reset to 50 ms and the laser
  power 10 becomes 8. From the double just below 50 ms the product rounds to 40, which
  is not below the minimum: the exposure time becomes 40 ms and the laser power stays.
\<close>

theorem check_slice_for_overexposure_cases_witness:
  "one_pixel_percentile [[65535]] 99.9 = Inr (Finite 65535) \<and>
   check_slice_for_overexposure one_pixel_percentile (Finite 10) (Finite 40) [[65535]]
     pipeline_autoexposure_settings = Inr (Finite 8, Finite 50, True) \<and>
   check_slice_for_overexposure one_pixel_percentile (Finite 10)
     (Finite (7036874417766399 / 140737488355328)) [[65535]]
     pipeline_autoexposure_settings = Inr (Finite 10, Finite 40, True)"
proof -
  have p: "one_pixel_percentile [[65535]] 99.9 = Inr (Finite 65535)"
    by (simp add: one_pixel_percentile_frame)
  have over: "float_gt (Finite 65535) (max_intensity pipeline_autoexposure_settings)"
    by (simp add: float_gt_def pipeline_limits)
  have "check_slice_for_overexposure one_pixel_percentile (Finite 10) (Finite 40) [[65535]]
          pipeline_autoexposure_settings = Inr (Finite 8, Finite 50, True)"
    using check_slice_for_overexposure_cases[where np_percentile = one_pixel_percentile
        and snap = "[[65535]]" and p = "Finite 65535" and lp = "Finite 10" and et = "Finite 40"
        and s = pipeline_autoexposure_settings] p over
    by (auto simp: pipeline_step pipeline_limits mul_40_step mul_10_step
          simp del: float_mul.simps)
  moreover
  have "check_slice_for_overexposure one_pixel_percentile (Finite 10)
          (Finite (7036874417766399 / 140737488355328)) [[65535]]
          pipeline_autoexposure_settings = Inr (Finite 10, Finite 40, True)"
    using check_slice_for_overexposure_cases[where np_percentile = one_pixel_percentile
        and snap = "[[65535]]" and p = "Finite 65535" and lp = "Finite 10"
        and et = "Finite (7036874417766399 / 140737488355328)"
        and s = pipeline_autoexposure_settings] p over
    by (auto simp: pipeline_step pipeline_limits mul_below_50_step
          simp del: float_mul.simps)
  ultimately show ?thesis using p by simp
qed

text \<open>
  Claim C7. Repeated application of \<open>check_slice_for_overexposure\<close> with the step 0.8,
  from any positive exposure time \<open>x\<close> in the range of the finite doubles, and with a
  minimum exposure time \<open>m\<close> of at least \<open>2 powi (- 1022)\<close>, the smallest normal double
  (40 ms in the pipeline). The products are rounded. \<open>N\<close> is the number of
  multiplications by the step, less one, that take the exposure time below the minimum;
  from at most 500 ms, with minimum 40 ms, \<open>N < 12\<close>, so at most 12 calls are made.
  Within calls \<open>0 .. N\<close> the iteration reaches a frame that is not over-exposed (call
  \<open>j\<close> returns its inputs and \<open>False\<close>) or, at call \<open>N\<close>, the branch that resets the
  exposure time and lowers the laser power; until then every call only multiplies the
  exposure time. Under persistently over-exposed frames it is the second: call \<open>N\<close>
  lowers the laser power.
\<close>

theorem overexposure_iteration_bounded:
  assumes step: "relative_exposure_step s = float_of_real 0.8"
      and minimum: "min_exposure_time s = Finite m" "2 powi (- 1022) \<le> m"
      and start: "0 < x" "x < 2 ^ 1024"
      and frames: "\<forall>i. \<exists>p. np_percentile (snaps i) 99.9 = Inr p"
  shows "\<exists>N. float_lt (reduced_exposure (relative_exposure_step s) (Finite x) (Suc N))
                (min_exposure_time s) \<and>
             (\<forall>k<N. \<not> float_lt (reduced_exposure (relative_exposure_step s) (Finite x) (Suc k))
                         (min_exposure_time s)) \<and>
             (m = 40 \<and> x \<le> 500 \<longrightarrow> N < 12) \<and>
             (\<exists>j\<le>N.
                (\<forall>k<j. nth_check np_percentile s snaps lp (Finite x) k =
                   Inr (lp, reduced_exposure (relative_exposure_step s) (Finite x) (Suc k), True)) \<and>
                (nth_check np_percentile s snaps lp (Finite x) j =
                   Inr (lp, reduced_exposure (relative_exposure_step s) (Finite x) j, False) \<or>
                 j = N \<and> nth_check np_percentile s snaps lp (Finite x) j =
                   Inr (float_mul lp (relative_exposure_step s), default_exposure_time s, True))) \<and>
             ((\<forall>i. slice_overexposed np_percentile (snaps i) s) \<longrightarrow>
                (\<forall>k<N. nth_check np_percentile s snaps lp (Finite x) k =
                   Inr (lp, reduced_exposure (relative_exposure_step s) (Finite x) (Suc k), True)) \<and>
                nth_check np_percentile s snaps lp (Finite x) N =
                  Inr (float_mul lp (relative_exposure_step s), default_exposure_time s, True))"
proof -
  define r where "r = relative_exposure_step s"
  define red where "red = reduced_exposure r (Finite x)"
  define N where "N = (LEAST n. float_lt (red (Suc n)) (Finite m))"
  have r: "r = Finite (3602879701896397 / 4503599627370496)"
    using step by (simp add: r_def float_of_real_08)
  have ex: "\<exists>n. float_lt (red (Suc n)) (Finite m)"
    unfolding red_def r using start minimum(2) by (rule floor_exists)
  have below: "float_lt (red (Suc N)) (Finite m)"
    unfolding N_def using ex by (rule LeastI_ex)
  have above: "\<not> float_lt (red (Suc k)) (Finite m)" if "k < N" for k
    using not_less_Least[of k "\<lambda>n. float_lt (red (Suc n)) (Finite m)"] that
    unfolding N_def by blast
  have bound: "N < 12" if "m = 40" "x \<le> 500"
  proof -
    have "float_lt (red (Suc 11)) (Finite m)"
      unfolding red_def r that(1) using start(1) that(2) by (rule twelve_steps_from_500)
    then have "N \<le> 11" unfolding N_def by (rule Least_le)
    then show ?thesis by simp
  qed
  have floor_call: "nth_check np_percentile s snaps lp (Finite x) N
                      = Inr (float_mul lp r, default_exposure_time s, True)"
    and all_prefix: "\<forall>k<N. nth_check np_percentile s snaps lp (Finite x) k
                              = Inr (lp, red (Suc k), True)"
    if over: "\<forall>k\<le>N. slice_overexposed np_percentile (snaps k) s"
  proof -
    have run: "\<forall>k<N. slice_overexposed np_percentile (snaps k) s \<and>
                 \<not> float_lt (reduced_exposure (relative_exposure_step s) (Finite x) (Suc k))
                      (min_exposure_time s)"
      using over above unfolding minimum(1) red_def r_def by simp
    show "\<forall>k<N. nth_check np_percentile s snaps lp (Finite x) k = Inr (lp, red (Suc k), True)"
      using nth_check_prefix[OF run] unfolding red_def r_def by blast
    have "nth_check np_percentile s snaps lp (Finite x) N
            = check_slice_for_overexposure np_percentile lp (red N) (snaps N) s"
      using nth_check_input[OF run] unfolding red_def r_def .
    moreover have "float_lt (float_mul (red N) (relative_exposure_step s)) (min_exposure_time s)"
      using below unfolding minimum(1) red_def r_def by simp
    moreover have "slice_overexposed np_percentile (snaps N) s" using over by simp
    ultimately show "nth_check np_percentile s snaps lp (Finite x) N
                       = Inr (float_mul lp r, default_exposure_time s, True)"
      using check_over_floor[of np_percentile "snaps N" s "red N" lp] unfolding r_def by simp
  qed
  have general: "\<exists>j\<le>N.
      (\<forall>k<j. nth_check np_percentile s snaps lp (Finite x) k = Inr (lp, red (Suc k), True)) \<and>
      (nth_check np_percentile s snaps lp (Finite x) j = Inr (lp, red j, False) \<or>
       j = N \<and> nth_check np_percentile s snaps lp (Finite x) j
                 = Inr (float_mul lp r, default_exposure_time s, True))"
  proof (cases "\<forall>k\<le>N. slice_overexposed np_percentile (snaps k) s")
    case True
    from floor_call[OF True] all_prefix[OF True] show ?thesis by blast
  next
    case False
    define j where "j = (LEAST k. \<not> slice_overexposed np_percentile (snaps k) s)"
    from False obtain k0 where k0: "k0 \<le> N" "\<not> slice_overexposed np_percentile (snaps k0) s"
      by blast
    have notj: "\<not> slice_overexposed np_percentile (snaps j) s"
      unfolding j_def using k0(2) by (rule LeastI)
    have "j \<le> k0" unfolding j_def using k0(2) by (rule Least_le)
    then have jN: "j \<le> N" using k0(1) by simp
    have before: "slice_overexposed np_percentile (snaps k) s" if "k < j" for k
      using not_less_Least[of k "\<lambda>k. \<not> slice_overexposed np_percentile (snaps k) s"] that
      by (simp add: j_def)
    have run: "\<forall>k<j. slice_overexposed np_percentile (snaps k) s \<and>
                 \<not> float_lt (reduced_exposure (relative_exposure_step s) (Finite x) (Suc k))
                      (min_exposure_time s)"
      using before above jN unfolding minimum(1) red_def r_def by simp
    have pre: "\<forall>k<j. nth_check np_percentile s snaps lp (Finite x) k = Inr (lp, red (Suc k), True)"
      using nth_check_prefix[OF run] unfolding red_def r_def by blast
    obtain p where p: "np_percentile (snaps j) 99.9 = Inr p" using frames by blast
    have "nth_check np_percentile s snaps lp (Finite x) j
            = check_slice_for_overexposure np_percentile lp (red j) (snaps j) s"
      using nth_check_input[OF run] unfolding red_def r_def .
    then have "nth_check np_percentile s snaps lp (Finite x) j = Inr (lp, red j, False)"
      using check_not_over[OF p notj] by simp
    with pre jN show ?thesis by blast
  qed
  have persistent: "(\<forall>i. slice_overexposed np_percentile (snaps i) s) \<longrightarrow>
      (\<forall>k<N. nth_check np_percentile s snaps lp (Finite x) k = Inr (lp, red (Suc k), True)) \<and>
      nth_check np_percentile s snaps lp (Finite x) N
        = Inr (float_mul lp r, default_exposure_time s, True)"
    using floor_call all_prefix by blast
  have aboveN: "\<forall>k<N. \<not> float_lt (red (Suc k)) (Finite m)" using above by blast
  have boundN: "m = 40 \<and> x \<le> 500 \<longrightarrow> N < 12" using bound by blast
  show ?thesis
    unfolding minimum(1) r_def[symmetric] red_def[symmetric]
    using below aboveN boundN general persistent by (intro exI[of _ N]) blast
qed

lemma saturated_frame_overexposed:
  "slice_overexposed one_pixel_percentile [[65535]] pipeline_autoexposure_settings"
  by (simp add: slice_overexposed_def one_pixel_percentile_frame float_gt_def pipeline_limits)

text \<open>
  From 500 ms under a saturated camera the exposure times are 400, 320, 256, 204.8 and
  so on, each a rounded product; one of the first 12 calls resets the exposure time to
  50 ms and lowers the laser power from 10 to 8.
\<close>

theorem overexposure_iteration_bounded_witness:
  "\<exists>N<12. nth_check one_pixel_percentile pipeline_autoexposure_settings (\<lambda>i. [[65535]])
             (Finite 10) (Finite 500) N = Inr (Finite 8, Finite 50, True)"
proof -
  have step: "relative_exposure_step pipeline_autoexposure_settings = float_of_real 0.8"
    by (simp add: pipeline_autoexposure_settings_def)
  have minimum: "min_exposure_time pipeline_autoexposure_settings = Finite 40"
    by (simp add: pipeline_limits)
  have normal: "(2::real) powi (- 1022) \<le> 40"
    by (simp add: power_int_def power_divide)
  have frames: "\<forall>i. \<exists>p. one_pixel_percentile ((\<lambda>i. [[65535]]) i) 99.9 = Inr p"
    by (simp add: one_pixel_percentile_frame)
  have start: "(0::real) < 500" "(500::real) < 2 ^ 1024" by simp_all
  from overexposure_iteration_bounded[where s = pipeline_autoexposure_settings and m = 40
      and x = 500 and np_percentile = one_pixel_percentile and snaps = "\<lambda>i. [[65535]]"
      and lp = "Finite 10"] step minimum normal start frames
  obtain N where "N < 12"
    and "nth_check one_pixel_percentile pipeline_autoexposure_settings (\<lambda>i. [[65535]])
           (Finite 10) (Finite 500) N
         = Inr (float_mul (Finite 10) (relative_exposure_step pipeline_autoexposure_settings),
                default_exposure_time pipeline_autoexposure_settings, True)"
    using saturated_frame_overexposed by auto
  then show ?thesis
    by (intro exI[of _ N]) (simp add: pipeline_step pipeline_limits mul_10_step
          del: float_mul.simps)
qed

text \<open>
  Claim C8. The laser power that the caller passes is a non-negative double (the
  channel starts at 10 and is only ever multiplied by the step), and the step is in
  (0, 1). For every such input the laser power returned by
  \<open>check_slice_for_overexposure\<close> is at most the laser power given: the rounded product
  of a double and a step below 1 does not exceed the double. The function never
  consults \<open>min_laser_power\<close>: changing that setting changes no result. Each
  over-exposed call that hits the exposure-time floor multiplies the laser power by
  \<open>relative_exposure_step\<close>, and with the settings of the pipeline a laser power at the
  minimum, 1, comes back as the double 0.8, below \<open>min_laser_power\<close>: no lower bound is
  enforced.
\<close>

theorem laser_power_no_lower_bound:
  "(lp = Finite x \<and> 0 \<le> x \<and> is_binary64 x \<and>
    relative_exposure_step s = Finite c \<and> 0 < c \<and> c < 1 \<longrightarrow>
      (\<forall>lp' et' over.
          check_slice_for_overexposure np_percentile lp et snap s = Inr (lp', et', over) \<longrightarrow>
            float_le lp' lp)) \<and>
   check_slice_for_overexposure np_percentile lp et snap (s\<lparr>min_laser_power := y\<rparr>) =
     check_slice_for_overexposure np_percentile lp et snap s \<and>
   (slice_overexposed np_percentile snap s \<and>
    float_lt (float_mul et (relative_exposure_step s)) (min_exposure_time s) \<longrightarrow>
      check_slice_for_overexposure np_percentile lp et snap s =
        Inr (float_mul lp (relative_exposure_step s), default_exposure_time s, True)) \<and>
   (\<exists>lp0 et0 snap0 lp'.
      float_le (min_laser_power pipeline_autoexposure_settings) lp0 \<and>
      check_slice_for_overexposure one_pixel_percentile lp0 et0 snap0
        pipeline_autoexposure_settings =
        Inr (lp', default_exposure_time pipeline_autoexposure_settings, True) \<and>
      float_lt lp' (min_laser_power pipeline_autoexposure_settings))"
proof (intro conjI)
  show "lp = Finite x \<and> 0 \<le> x \<and> is_binary64 x \<and>
        relative_exposure_step s = Finite c \<and> 0 < c \<and> c < 1 \<longrightarrow>
      (\<forall>lp' et' over.
          check_slice_for_overexposure np_percentile lp et snap s = Inr (lp', et', over) \<longrightarrow>
            float_le lp' lp)"
  proof (intro impI allI)
    fix lp' et' over
    assume dom: "lp = Finite x \<and> 0 \<le> x \<and> is_binary64 x \<and>
                 relative_exposure_step s = Finite c \<and> 0 < c \<and> c < 1"
      and res: "check_slice_for_overexposure np_percentile lp et snap s = Inr (lp', et', over)"
    from dom have x: "0 \<le> x" "is_binary64 x" and c: "0 < c" "c < 1" by simp_all
    have "x * c \<le> x * 1" using x(1) c by (intro mult_left_mono) auto
    then have le: "round64 (x * c) \<le> x"
      using x c by (intro round64_le_representable) auto
    have "0 \<le> round64 (x * c)" using x(1) c by (intro round64_nonneg) auto
    moreover from x(2) have "\<bar>x\<bar> < 2 ^ 1024" by (simp add: is_binary64_def)
    ultimately have "\<bar>round64 (x * c)\<bar> < 2 ^ 1024" using le by linarith
    then have "float_of_real (x * c) = Finite (round64 (x * c))"
      by (rule float_of_real_finite)
    then have mul: "float_le (float_mul lp (relative_exposure_step s)) lp"
      using dom le by simp
    have same: "float_le lp lp" using dom by simp
    from res have "lp' = lp \<or> lp' = float_mul lp (relative_exposure_step s)"
      by (auto simp: check_slice_for_overexposure_def Let_def split: sum.splits if_splits)
    with mul same show "float_le lp' lp" by auto
  qed
  show "check_slice_for_overexposure np_percentile lp et snap (s\<lparr>min_laser_power := y\<rparr>) =
     check_slice_for_overexposure np_percentile lp et snap s"
    by (simp add: check_slice_for_overexposure_def Let_def split: sum.splits)
  show "slice_overexposed np_percentile snap s \<and>
    float_lt (float_mul et (relative_exposure_step s)) (min_exposure_time s) \<longrightarrow>
      check_slice_for_overexposure np_percentile lp et snap s =
        Inr (float_mul lp (relative_exposure_step s), default_exposure_time s, True)"
    using check_over_floor by blast
  have "check_slice_for_overexposure one_pixel_percentile (Finite 1) (Finite 40) [[65535]]
          pipeline_autoexposure_settings
          = Inr (Finite (3602879701896397 / 4503599627370496),
                 default_exposure_time pipeline_autoexposure_settings, True)"
    using check_over_floor[OF saturated_frame_overexposed, of "Finite 40" "Finite 1"]
    by (simp add: pipeline_step pipeline_limits mul_40_step mul_1_step del: float_mul.simps)
  moreover have "float_lt (Finite (3602879701896397 / 4503599627370496))
                   (min_laser_power pipeline_autoexposure_settings)"
    "float_le (min_laser_power pipeline_autoexposure_settings) (Finite 1)"
    by (simp_all add: pipeline_limits)
  ultimately show "\<exists>lp0 et0 snap0 lp'.
      float_le (min_laser_power pipeline_autoexposure_settings) lp0 \<and>
      check_slice_for_overexposure one_pixel_percentile lp0 et0 snap0
        pipeline_autoexposure_settings =
        Inr (lp', default_exposure_time pipeline_autoexposure_settings, True) \<and>
      float_lt lp' (min_laser_power pipeline_autoexposure_settings)"
    by (intro exI[of _ "Finite 1"] exI[of _ "Finite 40"] exI[of _ "[[65535]]"]
          exI[of _ "Finite (3602879701896397 / 4503599627370496)"]) simp
qed

lemma ten_is_binary64: "is_binary64 10"
  by (simp add: is_binary64_def float_eval)

text \<open>
  The laser power 10 of the pipeline at the exposure-time floor: it comes back as 8,
  which is at most 10, whatever \<open>min_laser_power\<close> is.
\<close>

theorem laser_power_no_lower_bound_witness:
  "check_slice_for_overexposure one_pixel_percentile (Finite 10) (Finite 40) [[65535]]
     pipeline_autoexposure_settings = Inr (Finite 8, Finite 50, True) \<and>
   float_le (Finite 8) (Finite 10) \<and>
   check_slice_for_overexposure one_pixel_percentile (Finite 10) (Finite 40) [[65535]]
     (pipeline_autoexposure_settings\<lparr>min_laser_power := Finite 5\<rparr>) = Inr (Finite 8, Finite 50, True)"
proof -
  note inst = laser_power_no_lower_bound[of "Finite 10" 10 pipeline_autoexposure_settings
      "3602879701896397 / 4503599627370496" one_pixel_percentile "Finite 40" "[[65535]]"
      "Finite 5"]
  have floor: "float_lt (float_mul (Finite 40)
                  (relative_exposure_step pipeline_autoexposure_settings))
                (min_exposure_time pipeline_autoexposure_settings)"
    by (simp add: pipeline_step pipeline_limits mul_40_step del: float_mul.simps)
  from inst floor saturated_frame_overexposed
  have res: "check_slice_for_overexposure one_pixel_percentile (Finite 10) (Finite 40) [[65535]]
          pipeline_autoexposure_settings = Inr (Finite 8, Finite 50, True)"
    by (simp add: pipeline_step pipeline_limits mul_10_step del: float_mul.simps)
  from inst have dom: "\<forall>lp' et' over.
      check_slice_for_overexposure one_pixel_percentile (Finite 10) (Finite 40) [[65535]]
        pipeline_autoexposure_settings = Inr (lp', et', over) \<longrightarrow> float_le lp' (Finite 10)"
    using ten_is_binary64 by (simp add: pipeline_step)
  from dom res have "float_le (Finite 8) (Finite 10)" by blast
  moreover from inst res
  have "check_slice_for_overexposure one_pixel_percentile (Finite 10) (Finite 40) [[65535]]
     (pipeline_autoexposure_settings\<lparr>min_laser_power := Finite 5\<rparr>) = Inr (Finite 8, Finite 50, True)"
    by simp
  ultimately show ?thesis using res by simp
qed

subsection \<open>Properties of \<open>move_z\<close>\<close>

lemma move_z_invalid_kind:
  assumes "kind \<noteq> PyStr ''relative''" and "kind \<noteq> PyStr ''absolute''"
  shows "\<exists>m. move_z parse core label position kind = Inl (ValueError m)"
  using assms by (simp add: move_z_def)

lemma move_z_not_a_float_literal:
  assumes "kind = PyStr ''relative'' \<or> kind = PyStr ''absolute''" and "parse s = None"
  shows "move_z parse core label (PyStr s) kind =
           Inl (TypeError ''`position` cannot be coerced to float'')"
  using assms by (auto simp add: move_z_def builtin_float_def)

lemma move_z_nan:
  assumes "kind = PyStr ''relative'' \<or> kind = PyStr ''absolute''"
  shows "move_z parse core label (PyFloat NaN) kind = Inl (TypeError ''`position` cannot be nan'')"
  using assms by (auto simp add: move_z_def builtin_float_def)

lemma move_z_absolute:
  assumes "builtin_float parse position = Inr x" and "x \<noteq> NaN"
  shows "move_z parse core label position (PyStr ''absolute'') =
           Inr (setPosition core label x,
                stage_response core label (stage_position core label) (SetPosition x))"
  using assms by (auto simp add: move_z_def setPosition_def getPosition_def Let_def)

lemma move_z_relative:
  assumes "builtin_float parse position = Inr x" and "x \<noteq> NaN"
  shows "move_z parse core label position (PyStr ''relative'') =
           Inr (setRelativePosition core label x,
                stage_response core label (stage_position core label) (SetRelativePosition x))"
  using assms by (auto simp add: move_z_def setRelativePosition_def getPosition_def Let_def)

text \<open>
  Claim C6. \<open>move_z\<close> is to fail with the message "cannot be coerced to float" for every
  position that \<open>float\<close> cannot convert. For a position that is no string and no number
  it does not: \<open>position=None\<close>, the default of the parameter, leaves \<open>move_z\<close> with the
  \<open>TypeError\<close> of \<open>float\<close> itself, whose message is another one. (An invalid \<open>kind\<close>, a
  string that is no float literal, and nan fail as the claim says, and a valid call
  returns the position that the stage reports: the lemmas above.)
\<close>

theorem move_z_none_position:
  "move_z parse core label PyNone (PyStr ''absolute'') =
     Inl (TypeError (''float() argument must be a string or a number, not ''
                       @ quoted ''NoneType'')) \<and>
   move_z parse core label PyNone (PyStr ''absolute'') \<noteq>
     Inl (TypeError ''`position` cannot be coerced to float'')"
  by (simp add: move_z_def builtin_float_def)

subsection \<open>Properties of \<open>autoexposure\<close>\<close>

lemma ideal_core_exposure: "exposure ideal_core = Finite 50"
  by (simp add: ideal_core_def)

lemma ideal_core_position: "stage_position ideal_core label = Finite 0"
  by (simp add: ideal_core_def)

lemma move_z_absolute_ideal:
  assumes "stage_response core = stage_response ideal_core"
  shows "move_z parse core label (PyFloat (Finite x)) (PyStr ''absolute'') =
           Inr (core\<lparr>stage_position := (stage_position core)(label := Finite x)\<rparr>, Finite x)"
  using assms
  by (simp add: move_z_def builtin_float_def setPosition_def getPosition_def ideal_core_def)

lemma move_z_relative_ideal:
  assumes "stage_response core = stage_response ideal_core"
  shows "move_z parse core label (PyFloat (Finite x)) (PyStr ''relative'') =
           Inr (core\<lparr>stage_position :=
                        (stage_position core)
                          (label := float_add (stage_position core label) (Finite x))\<rparr>,
                float_add (stage_position core label) (Finite x))"
  using assms
  by (simp add: move_z_def builtin_float_def setRelativePosition_def getPosition_def
      ideal_core_def)

text \<open>The positions of the short stack: sums of small integers, which are exact.\<close>

lemma stack_positions:
  "float_add (Finite 0) (Finite (- 1)) = Finite (- 1)"
  "float_add (Finite (- 1)) (Finite 1) = Finite 0"
  "float_add (Finite 0) (Finite 1) = Finite 1"
  "float_add (Finite 1) (Finite 1) = Finite 2"
  by (simp_all add: float_of_real_def float_eval)

lemma loop_done:
  assumes "\<not> float_le z (relative_top stack)"
  shows "autoexposure_loop parse np_percentile cam stack ae core ch z = Some (Inr (core, ch))"
  by (subst autoexposure_loop.simps) (simp add: assms)

lemma loop_restart:
  assumes "float_le z (relative_top stack)"
      and "check_slice_for_overexposure np_percentile (laser_power ch) (exposure_time ch)
             (cam core) ae = Inr (lp, et, True)"
      and "stage_response core = stage_response ideal_core"
      and "relative_bottom stack = Finite b"
  shows "autoexposure_loop parse np_percentile cam stack ae core ch z =
         autoexposure_loop parse np_percentile cam stack ae
           (core\<lparr>device_property := (device_property core)((laser_line ch, laser_name ch) \<mapsto> lp),
                  exposure := et,
                  stage_position := (stage_position core)(stage_label stack := Finite b)\<rparr>)
           (ch\<lparr>laser_power := lp, exposure_time := et\<rparr>) (Finite b)"
  by (subst autoexposure_loop.simps)
     (simp add: assms move_z_absolute_ideal setExposure_def setProperty_def)

lemma loop_advance:
  assumes "float_le z (relative_top stack)"
      and "check_slice_for_overexposure np_percentile (laser_power ch) (exposure_time ch)
             (cam core) ae = Inr (lp, et, False)"
      and "stage_response core = stage_response ideal_core"
      and "float_add z (step_size stack) = Finite z'"
  shows "autoexposure_loop parse np_percentile cam stack ae core ch z =
         autoexposure_loop parse np_percentile cam stack ae
           (core\<lparr>stage_position := (stage_position core)(stage_label stack := Finite z')\<rparr>)
           ch (Finite z')"
  by (subst autoexposure_loop.simps) (simp add: assms move_z_absolute_ideal)

lemma autoexposure_returns_flag:
  assumes "autoexposure parse np_percentile cam core stack ch ae = Some (Inr (core', ch', v))"
  shows "v = PyBool True"
  using assms by (auto simp: autoexposure_def split: sum.splits option.splits prod.splits)

text \<open>
  Claim C1. \<open>autoexposure\<close> is to return the final laser power, the final exposure time
  and a success flag that is always true, as its docstring says too. Its \<open>return\<close>
  statement names the flag alone. On a stage that goes where it is told and a camera
  that saturates at 50 ms, the GFP channel ends with laser power 10 and exposure time
  40 ms, and the call returns \<open>True\<close>, not the tuple \<open>(10, 40, True)\<close>.
\<close>

theorem autoexposure_returns_only_the_flag:
  "(case autoexposure (\<lambda>s. None) one_pixel_percentile saturating_camera ideal_core
          short_stack_settings gfp_channel_settings pipeline_autoexposure_settings of
      Some (Inr (core', ch', v)) \<Rightarrow>
        v = PyBool True \<and>
        v \<noteq> PyTuple [PyFloat (laser_power ch'), PyFloat (exposure_time ch'), PyBool True] \<and>
        laser_power ch' = Finite 10 \<and> exposure_time ch' = Finite 40 \<and>
        exposure core' = Finite 40
    | _ \<Rightarrow> False)"
  by (simp add: autoexposure_def move_z_relative_ideal loop_restart loop_advance loop_done
        check_saturated check_dark saturating_camera_def stack_positions
        short_stack_settings_def gfp_channel_settings_def DEFAULT_LASER_POWER_def
        DEFAULT_EXPOSURE_TIME_def ideal_core_exposure ideal_core_position
        del: float_add.simps)

section \<open>Utilities (utils.py)\<close>

subsection \<open>\<open>well_id_to_position\<close>\<close>

text \<open>
  \<open>re.findall\<close> with the pattern \<open>^([A-H])([0-9]{1,2})$\<close>: at most one match, the row
  letter and one or two digits; \<open>$\<close> also matches before a newline that ends the
  string. \<open>result[0]\<close> raises \<open>IndexError\<close> when there is no match.
\<close>

definition is_digit :: "char \<Rightarrow> bool" where
  "is_digit c = (c \<in> set ''0123456789'')"

fun index_of :: "'a \<Rightarrow> 'a list \<Rightarrow> nat option" where
  "index_of x [] = None"
| "index_of x (y # ys) = (if x = y then Some 0 else map_option Suc (index_of x ys))"

definition digit_value :: "char \<Rightarrow> nat" where
  "digit_value c = (case index_of c ''0123456789'' of Some d \<Rightarrow> d | None \<Rightarrow> 0)"

definition builtin_int :: "string \<Rightarrow> int" where
  "builtin_int ds = int (foldl (\<lambda>acc c. 10 * acc + digit_value c) 0 ds)"

definition findall_well_id :: "string \<Rightarrow> (char \<times> string) list" where
  "findall_well_id well_id =
     (case well_id of
        [] \<Rightarrow> []
      | row # rest \<Rightarrow>
          let col = (if rest \<noteq> [] \<and> last rest = CHR 0x0A then butlast rest else rest)
          in if row \<in> set ''ABCDEFGH'' \<and> length col \<in> {1, 2} \<and> list_all is_digit col
             then [(row, col)] else [])"

definition well_id_to_position :: "string \<Rightarrow> py_exception + (int \<times> int)" where
  "well_id_to_position well_id =
     (case findall_well_id well_id of
        [] \<Rightarrow> Inl (IndexError ''list index out of range'')
      | (row, col) # _ \<Rightarrow>
          (case index_of row ''ABCDEFGH'' of
             None \<Rightarrow> Inl (ValueError (quoted [row] @ '' is not in list''))
           | Some row_ind \<Rightarrow> Inr (int row_ind, builtin_int col - 1)))"

fun str_of_nat :: "nat \<Rightarrow> string" where
  "str_of_nat n =
     (if n < 10 then [''0123456789'' ! n]
      else str_of_nat (n div 10) @ [''0123456789'' ! (n mod 10)])"

definition plate_well_ids :: "string list" where
  "plate_well_ids = concat (map (\<lambda>row. map (\<lambda>col. row # str_of_nat col) [1..<13]) ''ABCDEFGH'')"


text \<open>
  The inverse mapping of the specification: the row letter, then the column number,
  counted from 1, in decimal (\<open>str_of_nat\<close> is Python's \<open>str\<close> on a natural number).
\<close>

definition position_to_well_id :: "int \<times> int \<Rightarrow> string" where
  "position_to_well_id p = (''ABCDEFGH'' ! nat (fst p)) # str_of_nat (nat (snd p + 1))"

lemma upt_1_13: "[1..<13] = [1, 2, 3, 4, 5, 6, 7, 8, 9, 10, 11, 12 :: nat]"
  by (simp add: upt_rec)

lemma column_numbers:
  "\<forall>c \<in> set [1..<13].
     findall_well_id (row # str_of_nat c) =
       (if row \<in> set ''ABCDEFGH'' then [(row, str_of_nat c)] else []) \<and>
     builtin_int (str_of_nat c) = int c"
  unfolding upt_1_13
  by (simp add: findall_well_id_def is_digit_def builtin_int_def digit_value_def)

lemma row_letters:
  "\<forall>row \<in> set ''ABCDEFGH''.
     \<exists>i<8. index_of row ''ABCDEFGH'' = Some i \<and> ''ABCDEFGH'' ! i = row"
  by simp

lemma well_id_to_position_label:
  assumes row: "row \<in> set ''ABCDEFGH''" and col: "c \<in> set [1..<13]"
  shows "\<exists>i<8. well_id_to_position (row # str_of_nat c) = Inr (int i, int c - 1) \<and>
               ''ABCDEFGH'' ! i = row"
proof -
  from row_letters row obtain i
    where i: "i < 8" "index_of row ''ABCDEFGH'' = Some i" "''ABCDEFGH'' ! i = row"
    by blast
  from column_numbers col row
  have "findall_well_id (row # str_of_nat c) = [(row, str_of_nat c)]"
    and "builtin_int (str_of_nat c) = int c" by auto
  then have "well_id_to_position (row # str_of_nat c) = Inr (int i, int c - 1)"
    using i(2) by (simp add: well_id_to_position_def)
  with i show ?thesis by blast
qed

lemma plate_well_ids_iff:
  "w \<in> set plate_well_ids \<longleftrightarrow>
     (\<exists>row \<in> set ''ABCDEFGH''. \<exists>c \<in> set [1..<13]. w = row # str_of_nat c)"
  unfolding plate_well_ids_def by (auto simp del: str_of_nat.simps)

lemma plate_round_trip:
  assumes "w \<in> set plate_well_ids"
  shows "\<exists>r c. well_id_to_position w = Inr (r, c) \<and> 0 \<le> r \<and> r < 8 \<and> 0 \<le> c \<and> c < 12 \<and>
               position_to_well_id (r, c) = w"
proof -
  from assms obtain row c
    where row: "row \<in> set ''ABCDEFGH''" and c: "c \<in> set [1..<13]"
      and w: "w = row # str_of_nat c"
    unfolding plate_well_ids_iff by blast
  from well_id_to_position_label[OF row c] obtain i
    where i: "i < 8" "well_id_to_position w = Inr (int i, int c - 1)" "''ABCDEFGH'' ! i = row"
    unfolding w by blast
  from c have c': "1 \<le> c" "c < 13" by auto
  then have "nat (int c - 1 + 1) = c" by simp
  then have "position_to_well_id (int i, int c - 1) = w"
    using i(3) w by (simp add: position_to_well_id_def del: str_of_nat.simps)
  moreover have "0 \<le> int c - 1" "int c - 1 < 12" "0 \<le> int i" "int i < 8"
    using c' i(1) by auto
  ultimately show ?thesis using i(2) by blast
qed

text \<open>
  Claim C9. \<open>well_id_to_position\<close> maps A1 to (0, 0) and H12 to (7, 11). On each of the
  96 labels made of a row letter A to H and a column number 1 to 12 it returns a
  zero-based pair (row, column), with the row below 8 and the column below 12, from
  which the inverse mapping gives the label back; so it is injective on these labels.
\<close>

theorem well_id_round_trip:
  "well_id_to_position ''A1'' = Inr (0, 0) \<and>
   well_id_to_position ''H12'' = Inr (7, 11) \<and>
   (\<forall>w \<in> set plate_well_ids.
      \<exists>r c. well_id_to_position w = Inr (r, c) \<and> 0 \<le> r \<and> r < 8 \<and> 0 \<le> c \<and> c < 12 \<and>
            position_to_well_id (r, c) = w) \<and>
   inj_on well_id_to_position (set plate_well_ids)"
proof (intro conjI)
  show "well_id_to_position ''A1'' = Inr (0, 0)"
    by (simp add: well_id_to_position_def findall_well_id_def is_digit_def builtin_int_def
        digit_value_def)
  show "well_id_to_position ''H12'' = Inr (7, 11)"
    by (simp add: well_id_to_position_def findall_well_id_def is_digit_def builtin_int_def
        digit_value_def)
  show "\<forall>w \<in> set plate_well_ids.
      \<exists>r c. well_id_to_position w = Inr (r, c) \<and> 0 \<le> r \<and> r < 8 \<and> 0 \<le> c \<and> c < 12 \<and>
            position_to_well_id (r, c) = w"
    using plate_round_trip by blast
  show "inj_on well_id_to_position (set plate_well_ids)"
  proof (rule inj_onI)
    fix v w
    assume v: "v \<in> set plate_well_ids" and w: "w \<in> set plate_well_ids"
      and eq: "well_id_to_position v = well_id_to_position w"
    from plate_round_trip[OF v] obtain r c
      where 1: "well_id_to_position v = Inr (r, c)" "position_to_well_id (r, c) = v" by blast
    from plate_round_trip[OF w] obtain r' c'
      where 2: "well_id_to_position w = Inr (r', c')" "position_to_well_id (r', c') = w" by blast
    from eq 1(1) 2(1) have "r = r'" "c = c'" by simp_all
    with 1(2) 2(2) show "v = w" by simp
  qed
qed

lemma c7_in_plate: "''C7'' \<in> set plate_well_ids"
  unfolding plate_well_ids_iff
  by (rule bexI[of _ "CHR ''C''"], rule bexI[of _ 7]) simp_all

theorem well_id_round_trip_witness:
  "''C7'' \<in> set plate_well_ids \<and> well_id_to_position ''C7'' = Inr (2, 6) \<and>
   position_to_well_id (2, 6) = ''C7''"
proof -
  have "well_id_to_position ''C7'' = Inr (2, 6)"
    by (simp add: well_id_to_position_def findall_well_id_def is_digit_def builtin_int_def
        digit_value_def)
  moreover from well_id_round_trip c7_in_plate
  have "\<exists>r c. well_id_to_position ''C7'' = Inr (r, c) \<and> position_to_well_id (r, c) = ''C7''"
    by blast
  ultimately show ?thesis using c7_in_plate by auto
qed

subsection \<open>\<open>to_uint8\<close>\<close>

text \<open>
  \<open>astype('uint8')\<close> on a float truncates towards zero (the values that reach it below
  lie in [0, 255]). \<open>to_uint8\<close> works on a float copy of the image, statement by
  statement: subtract the 1st percentile, zero the values below \<open>minn\<close>, divide by the
  percentile range, cap at 1, scale by 255.
\<close>

definition astype_uint8 :: "real \<Rightarrow> 8 word" where
  "astype_uint8 x = word_of_int (if 0 \<le> x then \<lfloor>x\<rfloor> else \<lceil>x\<rceil>)"

definition to_uint8 :: "image \<Rightarrow> py_exception + 8 word list list" where
  "to_uint8 im =
     (let max_value = 255;
          im0 = astype_float im;
          percentile0 = 1
      in case (percentile (concat im0) percentile0,
               percentile (concat im0) (100 - percentile0)) of
           (Some minn, Some maxx) \<Rightarrow>
             if minn = maxx then Inr (map (map (\<lambda>x. astype_uint8 (x * 0))) im0)
             else
               let im1 = map (map (\<lambda>x. x - minn)) im0;
                   im2 = map (map (\<lambda>x. if x < minn then 0 else x)) im1;
                   im3 = map (map (\<lambda>x. x / (maxx - minn))) im2;
                   im4 = map (map (\<lambda>x. if x > 1 then 1 else x)) im3
               in Inr (map (map (\<lambda>x. astype_uint8 (x * max_value))) im4)
         | _ \<Rightarrow> Inl (IndexError ''percentile of an empty array''))"

text \<open>
  What the specification asks of a pixel: clipped to the percentile range and rescaled
  into [0, 255].
\<close>

definition clip_and_rescale :: "real \<Rightarrow> real \<Rightarrow> real \<Rightarrow> 8 word" where
  "clip_and_rescale minn maxx x =
     astype_uint8 (max 0 (min 1 ((x - minn) / (maxx - minn))) * 255)"

lemma sorted_replicate: "sort (replicate n (c::real)) = replicate n c"
  by (simp add: sorted_sort_id sorted_replicate)

lemma percentile_replicate:
  assumes "0 < n" "0 \<le> q" "q \<le> 100"
  shows "percentile (replicate n c) q = Some c"
proof -
  have "q / 100 * real (n - 1) \<le> 1 * real (n - 1)"
    using assms by (intro mult_right_mono) auto
  moreover have "0 \<le> q / 100 * real (n - 1)" using assms by simp
  ultimately have "nat \<lfloor>q / 100 * real (n - 1)\<rfloor> \<le> n - 1"
    by (simp add: floor_le_iff nat_le_iff le_nat_floor) 
  then have lo: "nat \<lfloor>q / 100 * real (n - 1)\<rfloor> < n" using assms by simp
  have hi: "min (nat \<lfloor>q / 100 * real (n - 1)\<rfloor> + 1) (n - 1) < n" using assms by simp
  show ?thesis
    using assms lo hi
    by (simp add: percentile_def Let_def sorted_replicate algebra_simps del: replicate.simps)
qed

lemma to_uint8_constant:
  assumes "0 < h" "0 < w"
  shows "to_uint8 (replicate h (replicate w c)) = Inr (replicate h (replicate w 0))"
proof -
  have "concat (astype_float (replicate h (replicate w c))) = replicate (h * w) (real (unat c))"
    by (induction h) (simp_all add: astype_float_def replicate_add)
  moreover have "0 < h * w" using assms by simp
  ultimately show ?thesis
    using percentile_replicate[of "h * w" 1 "real (unat c)"]
      percentile_replicate[of "h * w" 99 "real (unat c)"]
    by (simp add: to_uint8_def Let_def astype_float_def astype_uint8_def)
qed

lemma ex_pct: "percentile (concat (astype_float [[100, 100], [150, 300]])) 1 = Some 100 \<and>
               percentile (concat (astype_float [[100, 100], [150, 300]])) 99 = Some (591 / 2)"
  by (simp add: astype_float_def percentile_def Let_def)

text \<open>
  Claim C10. \<open>to_uint8\<close> is to return an all-zero image for a constant image (it does:
  \<open>to_uint8_constant\<close>) and, for any other image, the input clipped and rescaled into
  [0, 255] from the range of the 1st and 99th percentiles. After subtracting \<open>minn\<close>
  the code zeroes the values below \<open>minn\<close>, not those below 0, so a pixel between
  \<open>minn\<close> and \<open>2 * minn\<close> becomes 0. In the image below the percentiles are 100 and
  295.5, and the pixel 150, inside that range, is mapped to 0; clipped and rescaled it
  is 65.
\<close>

theorem to_uint8_zeroes_values_inside_the_range:
  "to_uint8 [[100, 100], [150, 300]] = Inr [[0, 0], [0, 255]] \<and>
   image_percentile [[100, 100], [150, 300]] 1 = Inr 100 \<and>
   image_percentile [[100, 100], [150, 300]] 99 = Inr 295.5 \<and>
   clip_and_rescale 100 295.5 150 = 65"
  using ex_pct
  by (simp add: to_uint8_def image_percentile_def Let_def astype_float_def astype_uint8_def clip_and_rescale_def)

section \<open>Confluency assessment (confluency\_assessments.py)\<close>

type_synonym binary_mask = "bool list list"
type_synonym positions = "(int \<times> int) list"
type_synonym matrix = "py_float list list"

text \<open>
  The image processing (Gaussian smoothing, Li threshold, labelling, distance transform,
  local maxima) comes from libraries; it is a parameter of the model, and may raise.
  \<open>generate_background_mask0\<close> and \<open>find_nucleus_positions0\<close> stand for the module's
  \<open>_generate_background_mask\<close> and \<open>_find_nucleus_positions\<close>, which only chain library
  calls. The nucleus positions are the rows of an integer array of shape \<open>(N, 2)\<close>;
  with no nucleus the array has shape \<open>(0, 2)\<close>.

  The numerical kernels of NumPy are parameters too: \<open>covariance\<close> is the matrix that
  \<open>np.cov\<close> computes from two or more observations, and \<open>eigenvalues\<close> is what LAPACK
  returns, or raises, for a matrix of finite entries. What NumPy does around these
  kernels is written out:

  \<^item> \<open>positions.mean(axis=0)\<close> is the sum of a column divided by the number of rows,
    in doubles; the sum of pixel coordinates is exact. With no row it is \<open>0 / 0\<close>, nan,
    and NumPy warns without raising.
  \<^item> \<open>np.cov\<close> divides by the number of observations less one. With fewer than two
    observations it sets the divisor to 0, warns, and multiplies the matrix of products,
    all zero, by \<open>1 / 0\<close>: every entry of the result is nan.
  \<^item> \<open>np.linalg.eig\<close> checks its argument before it calls LAPACK, and raises
    \<open>LinAlgError\<close> for a matrix with an infinite or nan entry.

  The ratio of the eigenvalues is a NumPy division: by zero it gives an infinity or
  nan, and no exception. Comparisons with nan are false.
\<close>

record confluency_library =
  generate_background_mask0 :: "image \<Rightarrow> py_exception + binary_mask"
  find_nucleus_positions0 :: "binary_mask \<Rightarrow> nat \<Rightarrow> py_exception + positions"
  covariance :: "positions \<Rightarrow> matrix"
  eigenvalues :: "matrix \<Rightarrow> py_exception + real list"

definition np_mean :: "int list \<Rightarrow> py_float" where
  "np_mean column =
     float_div (float_of_real (real_of_int (sum_list column)))
               (float_of_real (real (length column)))"

definition np_cov :: "confluency_library \<Rightarrow> positions \<Rightarrow> matrix" where
  "np_cov lib positions =
     (if length positions < 2 then [[NaN, NaN], [NaN, NaN]] else covariance lib positions)"

definition np_linalg_eig :: "confluency_library \<Rightarrow> matrix \<Rightarrow> py_exception + real list" where
  "np_linalg_eig lib a =
     (if list_all is_finite (concat a) then eigenvalues lib a
      else Inl (LinAlgError ''Array must not contain infs or NaNs''))"

definition calculate_nucleus_position_features ::
  "confluency_library \<Rightarrow> positions \<Rightarrow> py_float \<Rightarrow>
     py_exception + (nat \<times> py_float \<times> py_float)" where
  "calculate_nucleus_position_features lib positions image_size =
     (let num_nuclei = length positions;
          half_size = float_div image_size (Finite 2);
          row_offset = float_sub (np_mean (map fst positions)) half_size;
          col_offset = float_sub (np_mean (map snd positions)) half_size;
          com_offset = float_pow_half (float_add (float_mul row_offset row_offset)
                                             (float_mul col_offset col_offset));
          rel_com_offset = float_div com_offset image_size
      in case np_linalg_eig lib (np_cov lib positions) of
           Inl e \<Rightarrow> Inl e
         | Inr evals \<Rightarrow>
             if evals = [] then Inl (ValueError ''max() arg is an empty sequence'')
             else
               let eval_ratio =
                     float_div (float_sub (Finite (Max (set evals))) (Finite (Min (set evals))))
                               (Finite (Min (set evals)))
               in Inr (num_nuclei, rel_com_offset, eval_ratio))"

definition log_confluency_data :: "image \<Rightarrow> int option \<Rightarrow> py_exception + unit" where
  "log_confluency_data snap position_ind =
     (case position_ind of
        None \<Rightarrow> Inl (TypeError ''%d format: a number is required, not NoneType'')
      | Some _ \<Rightarrow> (case to_uint8 snap of Inl e \<Rightarrow> Inl e | Inr _ \<Rightarrow> Inr ()))"

definition assess_confluency ::
  "confluency_library \<Rightarrow> image \<Rightarrow> string option \<Rightarrow> int option \<Rightarrow> py_exception + (bool \<times> string)" where
  "assess_confluency lib snap log_dir position_ind =
     (let min_num_nuclei = 20;
          max_num_nuclei = 55;
          max_rel_com_offset = float_of_real 0.3;
          max_eval_ratio = Finite 1;
          nucleus_radius = 15;
          image_size = Finite 1024
      in case generate_background_mask0 lib snap of
           Inl e \<Rightarrow> Inl e
         | Inr mask' \<Rightarrow>
         (case find_nucleus_positions0 lib mask' nucleus_radius of
            Inl e \<Rightarrow> Inl e
          | Inr nucleus_positions \<Rightarrow>
          (case calculate_nucleus_position_features lib nucleus_positions image_size of
             Inl e \<Rightarrow> Inl e
           | Inr (num_nuclei, rel_com_offset, eval_ratio) \<Rightarrow>
               let (confluency_is_good, confluency_label) =
                     (if num_nuclei > max_num_nuclei then (False, ''high'')
                      else if num_nuclei < min_num_nuclei then (False, ''low'')
                      else if float_gt rel_com_offset max_rel_com_offset
                              \<or> float_gt eval_ratio max_eval_ratio
                      then (False, ''anisotropic'')
                      else (True, ''good''))
               in case (if log_dir \<noteq> None then log_confluency_data snap position_ind
                        else Inr ()) of
                    Inl e \<Rightarrow> Inl e
                  | Inr _ \<Rightarrow> Inr (confluency_is_good, confluency_label))))"

text \<open>
  A library for the examples: it finds the given positions in every frame, and its
  numerical kernels return the given covariance matrix and eigenvalues.
\<close>

definition synthetic_library :: "positions \<Rightarrow> matrix \<Rightarrow> real list \<Rightarrow> confluency_library" where
  "synthetic_library ps cov evals =
     \<lparr>generate_background_mask0 = (\<lambda>snap. Inr [[True]]),
      find_nucleus_positions0 = (\<lambda>m radius. Inr ps),
      covariance = (\<lambda>positions. cov),
      eigenvalues = (\<lambda>a. Inr evals)\<rparr>"

definition zero_matrix :: matrix where
  "zero_matrix = [[Finite 0, Finite 0], [Finite 0, Finite 0]]"

text \<open>
  Two clusters of 16 nuclei, four pixels above and four pixels below a nucleus at the
  centre of the image: the rows have variance \<open>(32 * 16) / 32 = 16\<close>, the columns have
  variance 0.
\<close>

definition two_clusters :: positions where
  "two_clusters = replicate 16 (508, 512) @ [(512, 512)] @ replicate 16 (516, 512)"

definition two_clusters_library :: confluency_library where
  "two_clusters_library =
     synthetic_library two_clusters [[Finite 16, Finite 0], [Finite 0, Finite 0]] [16, 0]"

subsection \<open>The decision after the features\<close>

text \<open>
  When the features of the nucleus positions are computed, the decision is the first
  matching rule of the tree, and without a log directory the call returns.
\<close>

lemma assess_confluency_tree:
  assumes mask: "generate_background_mask0 lib snap = Inr mask'"
      and pos: "find_nucleus_positions0 lib mask' 15 = Inr nucleus_positions"
      and feat: "calculate_nucleus_position_features lib nucleus_positions (Finite 1024)
                   = Inr (num_nuclei, rel_com_offset, eval_ratio)"
  shows "num_nuclei = length nucleus_positions \<and>
         assess_confluency lib snap None position_ind =
           Inr (if num_nuclei > 55 then (False, ''high'')
                else if num_nuclei < 20 then (False, ''low'')
                else if float_gt rel_com_offset (float_of_real 0.3)
                        \<or> float_gt eval_ratio (Finite 1)
                then (False, ''anisotropic'')
                else (True, ''good''))"
proof
  show "num_nuclei = length nucleus_positions"
    using feat
    by (auto simp: calculate_nucleus_position_features_def Let_def split: sum.splits if_splits)
  show "assess_confluency lib snap None position_ind =
           Inr (if num_nuclei > 55 then (False, ''high'')
                else if num_nuclei < 20 then (False, ''low'')
                else if float_gt rel_com_offset (float_of_real 0.3)
                        \<or> float_gt eval_ratio (Finite 1)
                then (False, ''anisotropic'')
                else (True, ''good''))"
    using mask pos feat by (simp add: assess_confluency_def Let_def)
qed

text \<open>
  Examples with nuclei stacked at the centre of the image (covariance and eigenvalues
  are zero, the ratio of the eigenvalues is \<open>0 / 0\<close>, nan, and no comparison with it
  holds): 19 nuclei are \<open>low\<close>, 56 are \<open>high\<close>, 30 are \<open>good\<close>. The two clusters have
  a ratio of eigenvalues of \<open>16 / 0\<close>, infinite: they are \<open>anisotropic\<close>.
\<close>

lemma float_of_real_small:
  "float_of_real 0 = Finite 0"
  "float_of_real 512 = Finite 512"
  "float_of_real 16 = Finite 16"
  "float_of_real 19 = Finite 19"
  "float_of_real 30 = Finite 30"
  "float_of_real 33 = Finite 33"
  "float_of_real 56 = Finite 56"
  "float_of_real 9728 = Finite 9728"
  "float_of_real 15360 = Finite 15360"
  "float_of_real 16896 = Finite 16896"
  "float_of_real 28672 = Finite 28672"
  "float_of_real (3 / 10) = Finite (5404319552844595 / 18014398509481984)"
  by (simp_all add: float_of_real_def float_eval)

lemma centre_features:
  assumes "n \<in> {19, 30, 56}"
  shows "calculate_nucleus_position_features
           (synthetic_library (replicate n (512, 512)) zero_matrix [0, 0])
           (replicate n (512, 512)) (Finite 1024) = Inr (n, Finite 0, NaN)"
  using assms
  by (auto simp: calculate_nucleus_position_features_def Let_def np_mean_def np_cov_def
        np_linalg_eig_def synthetic_library_def zero_matrix_def sum_list_replicate
        float_sub_def float_of_real_small)

lemma two_clusters_features:
  "calculate_nucleus_position_features two_clusters_library two_clusters (Finite 1024)
     = Inr (33, Finite 0, PosInf)"
  by (simp add: calculate_nucleus_position_features_def Let_def np_mean_def np_cov_def
        np_linalg_eig_def two_clusters_library_def synthetic_library_def two_clusters_def
        sum_list_replicate float_sub_def float_of_real_small)

lemma assess_confluency_examples:
  "assess_confluency (synthetic_library (replicate 19 (512, 512)) zero_matrix [0, 0])
     snap None None = Inr (False, ''low'')"
  "assess_confluency (synthetic_library (replicate 56 (512, 512)) zero_matrix [0, 0])
     snap None None = Inr (False, ''high'')"
  "assess_confluency (synthetic_library (replicate 30 (512, 512)) zero_matrix [0, 0])
     snap None None = Inr (True, ''good'')"
  "assess_confluency two_clusters_library snap None None = Inr (False, ''anisotropic'')"
proof -
  have lib: "generate_background_mask0 (synthetic_library ps cov evals) snap = Inr [[True]]"
    "find_nucleus_positions0 (synthetic_library ps cov evals) [[True]] 15 = Inr ps"
    for ps cov evals
    by (simp_all add: synthetic_library_def)
  show "assess_confluency (synthetic_library (replicate 19 (512, 512)) zero_matrix [0, 0])
          snap None None = Inr (False, ''low'')"
    using assess_confluency_tree[OF lib centre_features, of 19 None] by simp
  show "assess_confluency (synthetic_library (replicate 56 (512, 512)) zero_matrix [0, 0])
          snap None None = Inr (False, ''high'')"
    using assess_confluency_tree[OF lib centre_features, of 56 None] by simp
  show "assess_confluency (synthetic_library (replicate 30 (512, 512)) zero_matrix [0, 0])
          snap None None = Inr (True, ''good'')"
    using assess_confluency_tree[OF lib centre_features, of 30 None]
    by (simp add: float_gt_def float_of_real_small)
  show "assess_confluency two_clusters_library snap None None = Inr (False, ''anisotropic'')"
    using assess_confluency_tree[OF lib two_clusters_features[unfolded two_clusters_library_def],
        of None]
    by (simp add: float_gt_def two_clusters_library_def two_clusters_def)
qed

subsection \<open>Fewer than two nuclei\<close>

lemma np_cov_few: "length ps < 2 \<Longrightarrow> np_cov lib ps = [[NaN, NaN], [NaN, NaN]]"
  by (simp add: np_cov_def)

lemma np_linalg_eig_nan:
  "np_linalg_eig lib [[NaN, NaN], [NaN, NaN]]
     = Inl (LinAlgError ''Array must not contain infs or NaNs'')"
  by (simp add: np_linalg_eig_def)

lemma features_few:
  assumes "length ps < 2"
  shows "calculate_nucleus_position_features lib ps image_size
           = Inl (LinAlgError ''Array must not contain infs or NaNs'')"
  using assms
  by (simp add: calculate_nucleus_position_features_def Let_def np_cov_few np_linalg_eig_nan)

text \<open>
  Claim C4. The decision is to apply the first matching rule to every set of nucleus
  positions that \<open>assess_confluency\<close> computes, and fewer than 20 nuclei are to give
  \<open>low\<close> and false. For a frame in which no nucleus, or one nucleus, is found, the call
  gives no decision: the features are computed before the rules are applied, the
  covariance matrix of fewer than two positions is nan, and \<open>np.linalg.eig\<close> raises
  \<open>LinAlgError\<close>, which \<open>assess_confluency\<close> does not catch. This holds for every
  library, every frame, and with or without a log directory.
\<close>

theorem assess_confluency_few_nuclei:
  assumes mask: "generate_background_mask0 lib snap = Inr mask'"
      and pos: "find_nucleus_positions0 lib mask' 15 = Inr nucleus_positions"
      and few: "length nucleus_positions < 2"
  shows "assess_confluency lib snap log_dir position_ind
           = Inl (LinAlgError ''Array must not contain infs or NaNs'') \<and>
         assess_confluency lib snap log_dir position_ind \<noteq> Inr (False, ''low'')"
  using mask pos few by (simp add: assess_confluency_def Let_def features_few)

text \<open>
  A frame with no nucleus and a frame with one nucleus at the centre, without a log
  directory.
\<close>

theorem assess_confluency_few_nuclei_witness:
  "assess_confluency (synthetic_library [] zero_matrix [0, 0]) [[0]] None None
     = Inl (LinAlgError ''Array must not contain infs or NaNs'') \<and>
   assess_confluency (synthetic_library [(512, 512)] zero_matrix [0, 0]) [[0]] None None
     = Inl (LinAlgError ''Array must not contain infs or NaNs'')"
  using assess_confluency_few_nuclei[where lib = "synthetic_library [] zero_matrix [0, 0]"
          and snap = "[[0]]" and mask' = "[[True]]" and nucleus_positions = "[]"
          and log_dir = None and position_ind = None]
        assess_confluency_few_nuclei[where lib = "synthetic_library [(512, 512)] zero_matrix [0, 0]"
          and snap = "[[0]]" and mask' = "[[True]]" and nucleus_positions = "[(512, 512)]"
          and log_dir = None and position_ind = None]
  by (simp add: synthetic_library_def)

section \<open>FOV classifier (fov\_classifier.py)\<close>

text \<open>
  What \<open>classify_raw_fov\<close> receives as an image is any Python object: \<open>validate_raw_fov\<close>
  looks at its type, dtype and shape. The state of the classifier is the record
  \<open>fov_classifier\<close>; \<open>log_info\<close> is the dictionary of the same name, an absent key and
  the value \<open>None\<close> both being \<open>None\<close>. The field \<open>executed\<close> is not in the source: it
  records, in order, each wrapped method whose body was entered in the current call,
  with the message of the exception when the body raised, so that "the stage executes"
  can be stated.
\<close>

datatype py_image = NotAnArray | NdArray (dtype: string) (shape: "nat list") (pixels: "nat list")

type_synonym features = "(string \<times> real) list"

record error_info =
  method_name :: string
  error_message :: string

record log_info =
  log_position_ind :: "int option"
  log_raw_image :: "py_image option"
  log_positions :: "positions option"
  log_features :: "features option"
  log_error_info :: "error_info option"
  log_decision :: "bool option"
  log_reason :: "string option"

record fov_classifier =
  mode :: string
  log_dir :: "string option"
  image_size :: nat
  error_has_occured :: bool
  decision_has_been_made :: bool
  decision_flag :: "bool option"
  log_info :: log_info
  executed :: "(string \<times> string option) list"

text \<open>
  The bodies of the image-processing, feature and prediction methods are library calls
  (scikit-image, SciPy, NumPy, scikit-learn); they are parameters, and each may raise.
  A method called with the \<open>None\<close> that a skipped stage returned gets \<open>None\<close>.
\<close>

record classifier_library =
  threshold_li :: "py_image \<Rightarrow> py_exception + real"
  eroded_background_mask :: "py_image \<Rightarrow> py_exception + binary_mask"
  peak_positions :: "binary_mask option \<Rightarrow> py_exception + positions"
  feature_values :: "positions option \<Rightarrow> py_exception + features"
  model_predict :: "features option \<Rightarrow> py_exception + bool"

definition initial_classifier :: "string \<Rightarrow> string option \<Rightarrow> fov_classifier" where
  "initial_classifier mode0 log_dir0 =
     \<lparr>mode = mode0, log_dir = log_dir0, image_size = 1024,
      error_has_occured = False, decision_has_been_made = False,
      decision_flag = None,
      log_info = \<lparr>log_position_ind = None, log_raw_image = None,
                   log_positions = None, log_features = None,
                   log_error_info = None, log_decision = None,
                   log_reason = None\<rparr>,
      executed = []\<rparr>"

definition FOVClassifier ::
  "string \<Rightarrow> string option \<Rightarrow> py_value \<Rightarrow> py_exception + fov_classifier" where
  "FOVClassifier cache_dir log_dir0 mode0 =
     (if mode0 \<notin> set [PyStr ''training'', PyStr ''prediction'']
      then Inl (ValueError (''`mode` must be either '' @ quoted ''training'' @ '' or ''
                              @ quoted ''prediction''))
      else Inr (initial_classifier (case mode0 of PyStr m \<Rightarrow> m | _ \<Rightarrow> []) log_dir0))"

subsection \<open>\<open>make_decision\<close> and the wrapper \<open>catch_errors\<close>\<close>

definition make_decision ::
  "fov_classifier \<Rightarrow> bool option \<Rightarrow> string option \<Rightarrow> error_info option \<Rightarrow> fov_classifier" where
  "make_decision self decision reason error_info0 =
     (if error_has_occured self \<or> decision_has_been_made self then self
      else self\<lparr>decision_flag := decision,
                decision_has_been_made := True,
                log_info := (log_info self)\<lparr>log_error_info := error_info0,
                                             log_decision := decision,
                                             log_reason := reason\<rparr>\<rparr>)"

definition catch_errors ::
  "string \<Rightarrow> (fov_classifier \<Rightarrow> 'a \<Rightarrow> py_exception + 'b) \<Rightarrow> fov_classifier \<Rightarrow> 'a \<Rightarrow>
     py_exception + (fov_classifier \<times> 'b option)" where
  "catch_errors method_name0 wrapped self arg =
     (if mode self = ''training'' then
        (case wrapped self arg of
           Inl error \<Rightarrow> Inl error
         | Inr result \<Rightarrow>
             Inr (self\<lparr>executed := executed self @ [(method_name0, None)]\<rparr>, Some result))
      else if error_has_occured self \<or> decision_has_been_made self then Inr (self, None)
      else
        (case wrapped self arg of
           Inr result \<Rightarrow>
             Inr (self\<lparr>executed := executed self @ [(method_name0, None)]\<rparr>, Some result)
         | Inl error \<Rightarrow>
             let self1 = self\<lparr>executed := executed self
                                 @ [(method_name0, Some (str_of_exception error))]\<rparr>;
                 error_info0 = \<lparr>method_name = method_name0,
                                error_message = str_of_exception error\<rparr>;
                 self2 = make_decision self1 (Some False)
                           (Some (''Error in method `FOVClassifier.'' @ method_name0 @ ''`''))
                           (Some error_info0)
             in Inr (self2\<lparr>error_has_occured := True\<rparr>, None)))"

subsection \<open>The wrapped methods\<close>

definition validate_raw_fov ::
  "fov_classifier \<Rightarrow> py_image \<Rightarrow> py_exception + (bool \<times> string option)" where
  "validate_raw_fov self image0 =
     (case image0 of
        NotAnArray \<Rightarrow> Inr (False, Some ''Image is not an np.ndarray'')
      | NdArray dt sh px \<Rightarrow>
          if dt \<noteq> ''uint16'' then Inr (False, Some ''Image is not uint16'')
          else if length sh \<noteq> 2 then Inr (False, Some ''Image is not 2D'')
          else if sh ! 0 \<noteq> image_size self \<or> sh ! 1 \<noteq> image_size self
          then Inr (False, Some (''Image shape is not ('' @ str_of_nat (image_size self)
                                   @ '', '' @ str_of_nat (image_size self) @ '')''))
          else Inr (True, None))"

definition are_nuclei_in_fov ::
  "classifier_library \<Rightarrow> fov_classifier \<Rightarrow> py_image \<Rightarrow> py_exception + bool" where
  "are_nuclei_in_fov lib self image0 =
     (let min_otsu_thresh = 1000 in
      case threshold_li lib image0 of
        Inl e \<Rightarrow> Inl e
      | Inr otsu_thresh \<Rightarrow> Inr (otsu_thresh > min_otsu_thresh))"

definition is_fov_candidate :: "fov_classifier \<Rightarrow> positions option \<Rightarrow> py_exception + bool" where
  "is_fov_candidate self positions0 =
     (let min_num_nuclei = 10; max_num_nuclei = 100 in
      case positions0 of
        None \<Rightarrow> Inl (AttributeError (quoted ''NoneType'' @ '' object has no attribute ''
                                       @ quoted ''shape''))
      | Some ps \<Rightarrow>
          let num_positions = length ps in
          if num_positions < min_num_nuclei \<or> num_positions > max_num_nuclei
          then Inr False else Inr True)"

definition generate_background_mask ::
  "classifier_library \<Rightarrow> fov_classifier \<Rightarrow> py_image \<Rightarrow> py_exception + binary_mask" where
  "generate_background_mask lib self image0 = eroded_background_mask lib image0"

definition find_nucleus_positions ::
  "classifier_library \<Rightarrow> fov_classifier \<Rightarrow> binary_mask option \<Rightarrow> py_exception + positions" where
  "find_nucleus_positions lib self mask0 = peak_positions lib mask0"

definition calculate_features ::
  "classifier_library \<Rightarrow> fov_classifier \<Rightarrow> positions option \<Rightarrow> py_exception + features" where
  "calculate_features lib self positions0 = feature_values lib positions0"

definition predict ::
  "classifier_library \<Rightarrow> fov_classifier \<Rightarrow> features option \<Rightarrow> py_exception + bool" where
  "predict lib self features0 = model_predict lib features0"

subsection \<open>\<open>classify_raw_fov\<close>\<close>

text \<open>
  \<open>classify_stages\<close> is the body of \<open>classify_raw_fov\<close> up to its last wrapped call and
  the decision that follows it; \<open>classify_raw_fov\<close> then logs and returns the decision
  flag. Of the logging, which writes files, the model keeps only the check that raises
  when a log directory is set and no position index was given.
\<close>

definition log_classification_info :: "fov_classifier \<Rightarrow> py_exception + unit" where
  "log_classification_info self =
     (if log_dir self = None then Inr ()
      else if log_position_ind (log_info self) = None
      then Inl (ValueError ''A position_ind must be provided to log classification info'')
      else Inr ())"

definition classify_stages ::
  "classifier_library \<Rightarrow> fov_classifier \<Rightarrow> py_image \<Rightarrow> int option \<Rightarrow> py_exception + fov_classifier" where
  "classify_stages lib self0 image0 position_ind =
     (let self1 = self0\<lparr>error_has_occured := False,
                        decision_has_been_made := False,
                        log_info := \<lparr>log_position_ind = position_ind, log_raw_image = None,
                                     log_positions = None, log_features = None,
                                     log_error_info = None, log_decision = None,
                                     log_reason = None\<rparr>,
                        executed := []\<rparr>
      in case catch_errors ''validate_raw_fov'' validate_raw_fov self1 image0 of
           Inl e \<Rightarrow> Inl e
         | Inr (self2, validation_result) \<Rightarrow>
      let self3 = (case validation_result of
                     None \<Rightarrow> self2
                   | Some (flag, message) \<Rightarrow>
                       if flag
                       then self2\<lparr>log_info := (log_info self2)\<lparr>log_raw_image := Some image0\<rparr>\<rparr>
                       else make_decision self2 (Some False) message None)
      in case catch_errors ''are_nuclei_in_fov'' (are_nuclei_in_fov lib) self3 image0 of
           Inl e \<Rightarrow> Inl e
         | Inr (self4, nuclei_in_fov) \<Rightarrow>
      let self5 = (if nuclei_in_fov \<noteq> Some True
                   then make_decision self4 (Some False) (Some ''No nuclei in the FOV'') None
                   else self4)
      in case catch_errors ''generate_background_mask'' (generate_background_mask lib) self5 image0 of
           Inl e \<Rightarrow> Inl e
         | Inr (self6, mask0) \<Rightarrow>
        (case catch_errors ''find_nucleus_positions'' (find_nucleus_positions lib) self6 mask0 of
           Inl e \<Rightarrow> Inl e
         | Inr (self7, positions0) \<Rightarrow>
      let self8 = self7\<lparr>log_info := (log_info self7)\<lparr>log_positions := positions0\<rparr>\<rparr>
      in case catch_errors ''is_fov_candidate'' is_fov_candidate self8 positions0 of
           Inl e \<Rightarrow> Inl e
         | Inr (self9, fov_is_candidate) \<Rightarrow>
      let self10 = (if fov_is_candidate \<noteq> Some True
                    then make_decision self9 (Some False) (Some ''FOV is not a candidate'') None
                    else self9)
      in case catch_errors ''calculate_features'' (calculate_features lib) self10 positions0 of
           Inl e \<Rightarrow> Inl e
         | Inr (self11, features0) \<Rightarrow>
      let self12 = self11\<lparr>log_info := (log_info self11)\<lparr>log_features := features0\<rparr>\<rparr>
      in case catch_errors ''predict'' (predict lib) self12 features0 of
           Inl e \<Rightarrow> Inl e
         | Inr (self13, model_prediction) \<Rightarrow>
             Inr (make_decision self13 model_prediction (Some ''Model prediction'') None)))"

definition classify_raw_fov ::
  "classifier_library \<Rightarrow> fov_classifier \<Rightarrow> py_image \<Rightarrow> int option \<Rightarrow>
     py_exception + (fov_classifier \<times> bool option)" where
  "classify_raw_fov lib self image0 position_ind =
     (case classify_stages lib self image0 position_ind of
        Inl e \<Rightarrow> Inl e
      | Inr self' \<Rightarrow>
          (case log_classification_info self' of
             Inl e \<Rightarrow> Inl e
           | Inr _ \<Rightarrow> Inr (self', decision_flag self')))"

text \<open>Example inputs: a valid frame, a library that finds five nuclei, and one whose
  threshold computation raises.\<close>

definition valid_image :: py_image where
  "valid_image = NdArray ''uint16'' [1024, 1024] (replicate (1024 * 1024) 500)"

definition five_positions :: positions where
  "five_positions = [(100, 100), (200, 300), (400, 500), (600, 700), (900, 800)]"

definition sparse_library :: classifier_library where
  "sparse_library =
     \<lparr>threshold_li = (\<lambda>im. Inr 2000),
      eroded_background_mask = (\<lambda>im. Inr [[True]]),
      peak_positions = (\<lambda>m. Inr five_positions),
      feature_values = (\<lambda>ps. Inr [(''num_nuclei'', 5)]),
      model_predict = (\<lambda>fs. Inr True)\<rparr>"

definition failing_library :: classifier_library where
  "failing_library = sparse_library\<lparr>threshold_li := (\<lambda>im. Inl (RuntimeError ''boom''))\<rparr>"

subsection \<open>Error containment\<close>

text \<open>
  \<open>first_exception\<close> is the exception of the first method body that raises when the
  bodies run in the order of the pipeline, each on the result of the one before
  (\<open>validate_raw_fov\<close> and \<open>is_fov_candidate\<close> do not raise).
\<close>

definition first_exception :: "classifier_library \<Rightarrow> py_image \<Rightarrow> py_exception option" where
  "first_exception lib image0 =
     (case threshold_li lib image0 of Inl e \<Rightarrow> Some e | Inr _ \<Rightarrow>
      (case eroded_background_mask lib image0 of Inl e \<Rightarrow> Some e | Inr m \<Rightarrow>
       (case peak_positions lib (Some m) of Inl e \<Rightarrow> Some e | Inr ps \<Rightarrow>
        (case feature_values lib (Some ps) of Inl e \<Rightarrow> Some e | Inr fs \<Rightarrow>
         (case model_predict lib (Some fs) of Inl e \<Rightarrow> Some e | Inr _ \<Rightarrow> None)))))"

definition error_reason :: "string \<Rightarrow> string" where
  "error_reason name = ''Error in method `FOVClassifier.'' @ name @ ''`''"

text \<open>
  The invariant of the pipeline in prediction mode: as long as no error has occurred no
  entry of the trace is a raise; once one has, it is the last entry, the decision is
  made and is "not good", and the log names the method and the message.
\<close>

definition errors_contained :: "fov_classifier \<Rightarrow> bool" where
  "errors_contained self =
     (if error_has_occured self
      then decision_has_been_made self \<and> decision_flag self = Some False \<and>
           log_decision (log_info self) = Some False \<and>
           (\<exists>pre name msg.
              executed self = pre @ [(name, Some msg)] \<and> list_all (\<lambda>x. snd x = None) pre \<and>
              log_error_info (log_info self) = Some \<lparr>method_name = name, error_message = msg\<rparr> \<and>
              log_reason (log_info self) = Some (error_reason name))
      else list_all (\<lambda>x. snd x = None) (executed self))"

lemma catch_errors_caught:
  assumes "mode self \<noteq> ''training''"
      and "\<not> error_has_occured self" and "\<not> decision_has_been_made self"
      and "wrapped self arg = Inl error"
  shows "catch_errors name wrapped self arg =
           Inr (self\<lparr>executed := executed self @ [(name, Some (str_of_exception error))],
                      decision_flag := Some False,
                      decision_has_been_made := True,
                      log_info := (log_info self)
                        \<lparr>log_error_info := Some \<lparr>method_name = name,
                                                  error_message = str_of_exception error\<rparr>,
                         log_decision := Some False,
                         log_reason := Some (error_reason name)\<rparr>,
                      error_has_occured := True\<rparr>, None)"
  using assms by (simp add: catch_errors_def make_decision_def error_reason_def Let_def)

lemma catch_errors_skipped:
  assumes "mode self \<noteq> ''training''"
      and "error_has_occured self \<or> decision_has_been_made self"
  shows "catch_errors name wrapped self arg = Inr (self, None)"
  using assms by (simp add: catch_errors_def)

lemma catch_errors_returned:
  assumes "mode self \<noteq> ''training''"
      and "\<not> error_has_occured self" and "\<not> decision_has_been_made self"
      and "wrapped self arg = Inr result"
  shows "catch_errors name wrapped self arg =
           Inr (self\<lparr>executed := executed self @ [(name, None)]\<rparr>, Some result)"
  using assms by (simp add: catch_errors_def)

lemma catch_errors_training:
  assumes "mode self = ''training''"
  shows "catch_errors name wrapped self arg =
           (case wrapped self arg of
              Inl error \<Rightarrow> Inl error
            | Inr result \<Rightarrow> Inr (self\<lparr>executed := executed self @ [(name, None)]\<rparr>, Some result))"
  using assms by (simp add: catch_errors_def)

lemma catch_errors_contained:
  assumes pred: "mode self \<noteq> ''training''" and inv: "errors_contained self"
  shows "\<exists>self' r. catch_errors name wrapped self arg = Inr (self', r) \<and>
                   errors_contained self' \<and> mode self' = mode self"
proof (cases "error_has_occured self \<or> decision_has_been_made self")
  case True
  show ?thesis
    unfolding catch_errors_skipped[OF pred True] using inv by simp
next
  case False
  then have flags: "\<not> error_has_occured self" "\<not> decision_has_been_made self" by simp_all
  with inv have clean: "list_all (\<lambda>x. snd x = None) (executed self)"
    by (simp add: errors_contained_def)
  show ?thesis
  proof (cases "wrapped self arg")
    case (Inl error)
    show ?thesis
      unfolding catch_errors_caught[where wrapped=wrapped and arg=arg, OF pred flags Inl]
      using clean by (simp add: errors_contained_def)
  next
    case (Inr result)
    show ?thesis
      unfolding catch_errors_returned[where wrapped=wrapped and arg=arg, OF pred flags Inr]
      using clean flags by (simp add: errors_contained_def)
  qed
qed

lemma make_decision_contained:
  assumes "errors_contained self"
  shows "errors_contained (make_decision self d r None) \<and>
         mode (make_decision self d r None) = mode self"
  using assms by (auto simp: make_decision_def errors_contained_def)

lemma log_update_contained:
  assumes "errors_contained self"
  shows "errors_contained (self\<lparr>log_info := (log_info self)\<lparr>log_raw_image := x\<rparr>\<rparr>)"
    and "errors_contained (self\<lparr>log_info := (log_info self)\<lparr>log_positions := y\<rparr>\<rparr>)"
    and "errors_contained (self\<lparr>log_info := (log_info self)\<lparr>log_features := z\<rparr>\<rparr>)"
  using assms by (auto simp: errors_contained_def)

lemma classify_stages_contained:
  assumes pred: "mode self \<noteq> ''training''"
  shows "\<exists>self'. classify_stages lib self image0 position_ind = Inr self' \<and> errors_contained self'"
proof -
  define self1 where "self1 = self\<lparr>error_has_occured := False,
                        decision_has_been_made := False,
                        log_info := \<lparr>log_position_ind = position_ind, log_raw_image = None,
                                     log_positions = None, log_features = None,
                                     log_error_info = None, log_decision = None,
                                     log_reason = None\<rparr>,
                        executed := []\<rparr>"
  have m1: "mode self1 \<noteq> ''training''" and c1: "errors_contained self1"
    using pred by (simp_all add: self1_def errors_contained_def)
  obtain self2 validation_result
    where s2: "catch_errors ''validate_raw_fov'' validate_raw_fov self1 image0
                 = Inr (self2, validation_result)"
      and c2: "errors_contained self2" and m2: "mode self2 \<noteq> ''training''"
    using catch_errors_contained[OF m1 c1] m1 by metis
  define self3 where "self3 = (case validation_result of
                     None \<Rightarrow> self2
                   | Some (flag, message) \<Rightarrow>
                       if flag
                       then self2\<lparr>log_info := (log_info self2)\<lparr>log_raw_image := Some image0\<rparr>\<rparr>
                       else make_decision self2 (Some False) message None)"
  have c3: "errors_contained self3" and m3: "mode self3 \<noteq> ''training''"
    using c2 m2 make_decision_contained[OF c2] log_update_contained(1)[OF c2]
    by (auto simp: self3_def split: option.splits)
  obtain self4 nuclei_in_fov
    where s4: "catch_errors ''are_nuclei_in_fov'' (are_nuclei_in_fov lib) self3 image0
                 = Inr (self4, nuclei_in_fov)"
      and c4: "errors_contained self4" and m4: "mode self4 \<noteq> ''training''"
    using catch_errors_contained[OF m3 c3] m3 by metis
  define self5 where "self5 = (if nuclei_in_fov \<noteq> Some True
                   then make_decision self4 (Some False) (Some ''No nuclei in the FOV'') None
                   else self4)"
  have c5: "errors_contained self5" and m5: "mode self5 \<noteq> ''training''"
    using c4 m4 make_decision_contained[OF c4] by (auto simp: self5_def)
  obtain self6 mask0
    where s6: "catch_errors ''generate_background_mask'' (generate_background_mask lib) self5 image0
                 = Inr (self6, mask0)"
      and c6: "errors_contained self6" and m6: "mode self6 \<noteq> ''training''"
    using catch_errors_contained[OF m5 c5] m5 by metis
  obtain self7 positions0
    where s7: "catch_errors ''find_nucleus_positions'' (find_nucleus_positions lib) self6 mask0
                 = Inr (self7, positions0)"
      and c7: "errors_contained self7" and m7: "mode self7 \<noteq> ''training''"
    using catch_errors_contained[OF m6 c6] m6 by metis
  define self8 where "self8 = self7\<lparr>log_info := (log_info self7)\<lparr>log_positions := positions0\<rparr>\<rparr>"
  have c8: "errors_contained self8" and m8: "mode self8 \<noteq> ''training''"
    using log_update_contained(2)[OF c7] m7 by (simp_all add: self8_def)
  obtain self9 fov_is_candidate
    where s9: "catch_errors ''is_fov_candidate'' is_fov_candidate self8 positions0
                 = Inr (self9, fov_is_candidate)"
      and c9: "errors_contained self9" and m9: "mode self9 \<noteq> ''training''"
    using catch_errors_contained[OF m8 c8] m8 by metis
  define self10 where "self10 = (if fov_is_candidate \<noteq> Some True
                    then make_decision self9 (Some False) (Some ''FOV is not a candidate'') None
                    else self9)"
  have c10: "errors_contained self10" and m10: "mode self10 \<noteq> ''training''"
    using c9 m9 make_decision_contained[OF c9] by (auto simp: self10_def)
  obtain self11 features0
    where s11: "catch_errors ''calculate_features'' (calculate_features lib) self10 positions0
                 = Inr (self11, features0)"
      and c11: "errors_contained self11" and m11: "mode self11 \<noteq> ''training''"
    using catch_errors_contained[OF m10 c10] m10 by metis
  define self12 where "self12 = self11\<lparr>log_info := (log_info self11)\<lparr>log_features := features0\<rparr>\<rparr>"
  have c12: "errors_contained self12" and m12: "mode self12 \<noteq> ''training''"
    using log_update_contained(3)[OF c11] m11 by (simp_all add: self12_def)
  obtain self13 model_prediction
    where s13: "catch_errors ''predict'' (predict lib) self12 features0
                 = Inr (self13, model_prediction)"
      and c13: "errors_contained self13" and m13: "mode self13 \<noteq> ''training''"
    using catch_errors_contained[OF m12 c12] m12 by metis
  have "classify_stages lib self image0 position_ind =
          Inr (make_decision self13 model_prediction (Some ''Model prediction'') None)"
    unfolding classify_stages_def Let_def
    using s2 s4 s6 s7 s9 s11 s13
    by (simp add: self1_def[symmetric] self3_def[symmetric] self5_def[symmetric]
        self8_def[symmetric] self10_def[symmetric] self12_def[symmetric])
  then show ?thesis using make_decision_contained[OF c13] by simp
qed

lemma mode_make_decision [simp]: "mode (make_decision self d r e) = mode self"
  by (simp add: make_decision_def)

lemma validate_raw_fov_total: "\<exists>flag message. validate_raw_fov self image0 = Inr (flag, message)"
  by (cases image0) (auto simp: validate_raw_fov_def)

lemma first_exception_cases:
  assumes "first_exception lib image0 = Some e"
  obtains
    (nuclei) "threshold_li lib image0 = Inl e"
  | (mask) t where "threshold_li lib image0 = Inr t" "eroded_background_mask lib image0 = Inl e"
  | (positions) t m where "threshold_li lib image0 = Inr t"
      "eroded_background_mask lib image0 = Inr m" "peak_positions lib (Some m) = Inl e"
  | (features) t m ps where "threshold_li lib image0 = Inr t"
      "eroded_background_mask lib image0 = Inr m" "peak_positions lib (Some m) = Inr ps"
      "feature_values lib (Some ps) = Inl e"
  | (predict) t m ps fs where "threshold_li lib image0 = Inr t"
      "eroded_background_mask lib image0 = Inr m" "peak_positions lib (Some m) = Inr ps"
      "feature_values lib (Some ps) = Inr fs" "model_predict lib (Some fs) = Inl e"
  using assms unfolding first_exception_def
  by (auto split: sum.splits)

lemmas training_simps =
  classify_stages_def Let_def catch_errors_training are_nuclei_in_fov_def
  generate_background_mask_def find_nucleus_positions_def is_fov_candidate_def
  calculate_features_def predict_def case_prod_beta if_distrib[of mode]

lemma training_stages_propagate:
  assumes tr: "mode self = ''training''" and ex: "first_exception lib image0 = Some e"
  shows "classify_stages lib self image0 position_ind = Inl e"
proof -
  define vr where "vr = (\<lambda>s. projr (validate_raw_fov s image0))"
  have v: "validate_raw_fov s image0 = Inr (vr s)" for s
    using validate_raw_fov_total[of s image0] by (auto simp: vr_def)
  from ex show ?thesis
  proof (cases rule: first_exception_cases)
    case nuclei
    then show ?thesis using tr v by (simp add: training_simps)
  next
    case (mask t)
    then show ?thesis using tr v by (simp add: training_simps)
  next
    case (positions t m)
    then show ?thesis using tr v by (simp add: training_simps)
  next
    case (features t m ps)
    then show ?thesis using tr v by (simp add: training_simps)
  next
    case (predict t m ps fs)
    then show ?thesis using tr v by (simp add: training_simps)
  qed
qed

lemma validate_raw_fov_reset [simp]:
  "validate_raw_fov (self\<lparr>error_has_occured := a, decision_has_been_made := b,
                           log_info := c, executed := d\<rparr>) image0
     = validate_raw_fov self image0"
  by (cases image0) (simp_all add: validate_raw_fov_def)

lemma is_fov_candidate_count:
  "is_fov_candidate self (Some ps) = Inr (10 \<le> length ps \<and> length ps \<le> 100)"
  by (auto simp: is_fov_candidate_def Let_def)

lemmas prediction_simps =
  classify_stages_def Let_def catch_errors_def make_decision_def are_nuclei_in_fov_def
  generate_background_mask_def find_nucleus_positions_def is_fov_candidate_count
  calculate_features_def predict_def


lemma validate_valid_image:
  "image_size self = 1024 \<Longrightarrow> validate_raw_fov self valid_image = Inr (True, None)"
  by (simp add: validate_raw_fov_def valid_image_def)

lemma length_five_positions: "length five_positions = 5"
  by (simp add: five_positions_def)

lemmas example_simps =
  initial_classifier_def sparse_library_def failing_library_def validate_valid_image
  log_classification_info_def classify_raw_fov_def length_five_positions


text \<open>
  Claim C3. In prediction mode an exception raised inside a wrapped method is caught:
  the wrapper records the method's name and the message, sets the final decision to
  "not good" with the reason naming the method, and marks the error; and once an error
  has occurred or a decision has been made, a wrapped method is skipped and returns
  \<open>None\<close>. For a whole call of \<open>classify_raw_fov\<close> in prediction mode: the stages
  return, a stage that raised is the last stage that executed, the decision is "not
  good" with that stage's name and message in the log, and the call returns that
  decision unless logging itself fails. In training mode the wrapper does nothing:
  the first exception of a stage leaves \<open>classify_raw_fov\<close>.
\<close>

theorem error_containment:
  fixes wrapped :: "fov_classifier \<Rightarrow> 'a \<Rightarrow> py_exception + 'b"
  shows
  "(mode self \<noteq> ''training'' \<and> \<not> error_has_occured self \<and> \<not> decision_has_been_made self \<and>
      wrapped self arg = Inl error \<longrightarrow>
      catch_errors name wrapped self arg =
        Inr (self\<lparr>executed := executed self @ [(name, Some (str_of_exception error))],
                   decision_flag := Some False,
                   decision_has_been_made := True,
                   log_info := (log_info self)
                     \<lparr>log_error_info := Some \<lparr>method_name = name,
                                               error_message = str_of_exception error\<rparr>,
                      log_decision := Some False,
                      log_reason := Some (error_reason name)\<rparr>,
                   error_has_occured := True\<rparr>, None)) \<and>
   (mode self \<noteq> ''training'' \<and> (error_has_occured self \<or> decision_has_been_made self) \<longrightarrow>
      catch_errors name wrapped self arg = Inr (self, None)) \<and>
   (mode self = ''training'' \<and> wrapped self arg = Inl error \<longrightarrow>
      catch_errors name wrapped self arg = Inl error) \<and>
   (mode self \<noteq> ''training'' \<longrightarrow>
      (\<exists>self'. classify_stages lib self image0 position_ind = Inr self' \<and>
         (\<forall>stage msg. (stage, Some msg) \<in> set (executed self') \<longrightarrow>
            last (executed self') = (stage, Some msg) \<and>
            error_has_occured self' \<and> decision_has_been_made self' \<and>
            decision_flag self' = Some False \<and>
            log_decision (log_info self') = Some False \<and>
            log_reason (log_info self') = Some (error_reason stage) \<and>
            log_error_info (log_info self') =
              Some \<lparr>method_name = stage, error_message = msg\<rparr>) \<and>
         (log_classification_info self' = Inr () \<longrightarrow>
            classify_raw_fov lib self image0 position_ind = Inr (self', decision_flag self')))) \<and>
   (mode self = ''training'' \<and> first_exception lib image0 = Some e \<longrightarrow>
      classify_raw_fov lib self image0 position_ind = Inl e)"
proof (intro conjI impI)
  assume "mode self \<noteq> ''training'' \<and> \<not> error_has_occured self \<and>
          \<not> decision_has_been_made self \<and> wrapped self arg = Inl error"
  then show "catch_errors name wrapped self arg =
        Inr (self\<lparr>executed := executed self @ [(name, Some (str_of_exception error))],
                   decision_flag := Some False,
                   decision_has_been_made := True,
                   log_info := (log_info self)
                     \<lparr>log_error_info := Some \<lparr>method_name = name,
                                               error_message = str_of_exception error\<rparr>,
                      log_decision := Some False,
                      log_reason := Some (error_reason name)\<rparr>,
                   error_has_occured := True\<rparr>, None)"
    using catch_errors_caught[where wrapped=wrapped and arg=arg] by blast
next
  assume "mode self \<noteq> ''training'' \<and> (error_has_occured self \<or> decision_has_been_made self)"
  then show "catch_errors name wrapped self arg = Inr (self, None)"
    by (simp add: catch_errors_def)
next
  assume "mode self = ''training'' \<and> wrapped self arg = Inl error"
  then show "catch_errors name wrapped self arg = Inl error"
    by (simp add: catch_errors_def)
next
  assume pred: "mode self \<noteq> ''training''"
  from classify_stages_contained[OF pred] obtain self'
    where run: "classify_stages lib self image0 position_ind = Inr self'"
      and inv: "errors_contained self'" by blast
  have "last (executed self') = (stage, Some msg) \<and>
            error_has_occured self' \<and> decision_has_been_made self' \<and>
            decision_flag self' = Some False \<and>
            log_decision (log_info self') = Some False \<and>
            log_reason (log_info self') = Some (error_reason stage) \<and>
            log_error_info (log_info self') =
              Some \<lparr>method_name = stage, error_message = msg\<rparr>"
    if entry: "(stage, Some msg) \<in> set (executed self')" for stage msg
  proof (cases "error_has_occured self'")
    case False
    with inv have "list_all (\<lambda>x. snd x = None) (executed self')"
      by (simp add: errors_contained_def)
    with entry show ?thesis by (auto simp: list_all_iff)
  next
    case True
    with inv obtain pre name' msg'
      where tr: "executed self' = pre @ [(name', Some msg')]"
        and clean: "list_all (\<lambda>x. snd x = None) pre"
        and rest: "decision_has_been_made self'" "decision_flag self' = Some False"
          "log_decision (log_info self') = Some False"
          "log_error_info (log_info self') =
             Some \<lparr>method_name = name', error_message = msg'\<rparr>"
          "log_reason (log_info self') = Some (error_reason name')"
      by (auto simp: errors_contained_def)
    from entry tr clean have "stage = name'" "msg = msg'"
      by (auto simp: list_all_iff)
    with tr rest True show ?thesis by simp
  qed
  moreover have "log_classification_info self' = Inr () \<longrightarrow>
            classify_raw_fov lib self image0 position_ind = Inr (self', decision_flag self')"
    using run by (simp add: classify_raw_fov_def)
  ultimately show "\<exists>self'. classify_stages lib self image0 position_ind = Inr self' \<and>
         (\<forall>stage msg. (stage, Some msg) \<in> set (executed self') \<longrightarrow>
            last (executed self') = (stage, Some msg) \<and>
            error_has_occured self' \<and> decision_has_been_made self' \<and>
            decision_flag self' = Some False \<and>
            log_decision (log_info self') = Some False \<and>
            log_reason (log_info self') = Some (error_reason stage) \<and>
            log_error_info (log_info self') =
              Some \<lparr>method_name = stage, error_message = msg\<rparr>) \<and>
         (log_classification_info self' = Inr () \<longrightarrow>
            classify_raw_fov lib self image0 position_ind = Inr (self', decision_flag self'))"
    using run by blast
next
  assume "mode self = ''training'' \<and> first_exception lib image0 = Some e"
  then show "classify_raw_fov lib self image0 position_ind = Inl e"
    using training_stages_propagate[of self lib image0 e position_ind]
    by (simp add: classify_raw_fov_def)
qed


theorem error_containment_witness:
  "classify_raw_fov failing_library (initial_classifier ''training'' None) valid_image None
     = Inl (RuntimeError ''boom'') \<and>
   (case classify_raw_fov failing_library (initial_classifier ''prediction'' None) valid_image None of
      Inr (self', flag) \<Rightarrow>
        flag = Some False \<and>
        executed self' = [(''validate_raw_fov'', None), (''are_nuclei_in_fov'', Some ''boom'')] \<and>
        log_reason (log_info self') = Some ''Error in method `FOVClassifier.are_nuclei_in_fov`'' \<and>
        log_error_info (log_info self') =
          Some \<lparr>method_name = ''are_nuclei_in_fov'', error_message = ''boom''\<rparr>
    | Inl e \<Rightarrow> False)"
proof -
  have "first_exception failing_library valid_image = Some (RuntimeError ''boom'')"
    by (simp add: first_exception_def failing_library_def sparse_library_def)
  moreover have "mode (initial_classifier ''training'' None) = ''training''"
    by (simp add: initial_classifier_def)
  ultimately have
    "classify_raw_fov failing_library (initial_classifier ''training'' None) valid_image None
       = Inl (RuntimeError ''boom'')"
    using error_containment[where self="initial_classifier ''training'' None"
        and lib=failing_library and ?image0.0=valid_image and position_ind=None
        and e="RuntimeError ''boom''",
        THEN conjunct2, THEN conjunct2, THEN conjunct2, THEN conjunct2]
    by simp
  moreover have
    "(case classify_raw_fov failing_library (initial_classifier ''prediction'' None) valid_image None of
      Inr (self', flag) \<Rightarrow>
        flag = Some False \<and>
        executed self' = [(''validate_raw_fov'', None), (''are_nuclei_in_fov'', Some ''boom'')] \<and>
        log_reason (log_info self') = Some ''Error in method `FOVClassifier.are_nuclei_in_fov`'' \<and>
        log_error_info (log_info self') =
          Some \<lparr>method_name = ''are_nuclei_in_fov'', error_message = ''boom''\<rparr>
    | Inl e \<Rightarrow> False)"
    by (simp add: prediction_simps example_simps)
  ultimately show ?thesis by blast
qed


text \<open>
  In training mode the wrapper skips nothing: with five positions the decision is "FOV
  is not a candidate", and \<open>calculate_features\<close> and \<open>predict\<close> execute all the same.
\<close>

theorem candidacy_gate_training_counterexample:
  "(case classify_raw_fov sparse_library (initial_classifier ''training'' None) valid_image None of
      Inr (self', flag) \<Rightarrow>
        log_positions (log_info self') = Some five_positions \<and> length five_positions < 10 \<and>
        flag = Some False \<and> log_reason (log_info self') = Some ''FOV is not a candidate'' \<and>
        map fst (executed self') =
          [''validate_raw_fov'', ''are_nuclei_in_fov'', ''generate_background_mask'',
           ''find_nucleus_positions'', ''is_fov_candidate'', ''calculate_features'', ''predict'']
    | Inl e \<Rightarrow> False)"
  by (simp add: prediction_simps example_simps)


text \<open>
  Claim C5, amended. \<open>is_fov_candidate\<close> is true exactly for 10 to 100 positions. In
  prediction mode, when the positions found in a call number fewer than 10 or more than
  100, \<open>classify_raw_fov\<close> ends with the decision "not good" and the reason "FOV is not
  a candidate", no error is logged, and the stages that executed are the five up to
  \<open>is_fov_candidate\<close>: neither \<open>calculate_features\<close> nor \<open>predict\<close> runs.
\<close>

theorem not_a_candidate_rejected:
  assumes pred: "mode self \<noteq> ''training''"
      and run: "classify_stages lib self image0 position_ind = Inr self'"
      and pos: "log_positions (log_info self') = Some ps"
  shows "is_fov_candidate self' (Some ps) = Inr (10 \<le> length ps \<and> length ps \<le> 100) \<and>
         (length ps < 10 \<or> 100 < length ps \<longrightarrow>
            decision_flag self' = Some False \<and>
            log_decision (log_info self') = Some False \<and>
            log_reason (log_info self') = Some ''FOV is not a candidate'' \<and>
            log_error_info (log_info self') = None \<and>
            log_features (log_info self') = None \<and>
            map fst (executed self') =
              [''validate_raw_fov'', ''are_nuclei_in_fov'', ''generate_background_mask'',
               ''find_nucleus_positions'', ''is_fov_candidate''] \<and>
            (log_classification_info self' = Inr () \<longrightarrow>
               classify_raw_fov lib self image0 position_ind = Inr (self', Some False)))"
proof -
  obtain flag message where v: "validate_raw_fov self image0 = Inr (flag, message)"
    using validate_raw_fov_total by blast
  have reached: "\<exists>t m. flag \<and> threshold_li lib image0 = Inr t \<and> t > 1000 \<and>
                   eroded_background_mask lib image0 = Inr m \<and>
                   peak_positions lib (Some m) = Inr ps"
  proof (cases flag)
    case False
    with run pos pred v show ?thesis by (auto simp add: prediction_simps)
  next
    case True
    show ?thesis
    proof (cases "threshold_li lib image0")
      case (Inl e)
      with True run pos pred v show ?thesis by (auto simp add: prediction_simps)
    next
      case (Inr t)
      note t = this
      show ?thesis
      proof (cases "t > 1000")
        case False
        with t True run pos pred v show ?thesis by (auto simp add: prediction_simps)
      next
        case big: True
        show ?thesis
        proof (cases "eroded_background_mask lib image0")
          case (Inl e)
          with big t True run pos pred v show ?thesis by (auto simp add: prediction_simps)
        next
          case (Inr m)
          note m = this
          show ?thesis
          proof (cases "peak_positions lib (Some m)")
            case (Inl e)
            with m big t True run pos pred v show ?thesis by (auto simp add: prediction_simps)
          next
            case (Inr ps')
            with m big t True run pos pred v have "ps' = ps"
              by (cases "10 \<le> length ps' \<and> length ps' \<le> 100";
                  cases "feature_values lib (Some ps')";
                  cases "model_predict lib (Some (projr (feature_values lib (Some ps'))))")
                 (auto simp add: prediction_simps)
            with Inr m big t True show ?thesis by blast
          qed
        qed
      qed
    qed
  qed
  then obtain t m where ok: "flag" "threshold_li lib image0 = Inr t" "t > 1000"
      "eroded_background_mask lib image0 = Inr m" "peak_positions lib (Some m) = Inr ps"
    by blast
  have rejected: "decision_flag self' = Some False \<and>
            log_decision (log_info self') = Some False \<and>
            log_reason (log_info self') = Some ''FOV is not a candidate'' \<and>
            log_error_info (log_info self') = None \<and>
            log_features (log_info self') = None \<and>
            map fst (executed self') =
              [''validate_raw_fov'', ''are_nuclei_in_fov'', ''generate_background_mask'',
               ''find_nucleus_positions'', ''is_fov_candidate'']"
    if "length ps < 10 \<or> 100 < length ps"
  proof -
    from that have "\<not> (10 \<le> length ps \<and> length ps \<le> 100)" by auto
    with ok run pred v show ?thesis by (auto simp add: prediction_simps)
  qed
  show ?thesis
    using rejected run by (auto simp: is_fov_candidate_count classify_raw_fov_def)
qed

theorem not_a_candidate_rejected_witness:
  "(case classify_raw_fov sparse_library (initial_classifier ''prediction'' None) valid_image None of
      Inr (self', flag) \<Rightarrow>
        log_positions (log_info self') = Some five_positions \<and> length five_positions < 10 \<and>
        flag = Some False \<and> log_reason (log_info self') = Some ''FOV is not a candidate'' \<and>
        map fst (executed self') =
          [''validate_raw_fov'', ''are_nuclei_in_fov'', ''generate_background_mask'',
           ''find_nucleus_positions'', ''is_fov_candidate'']
    | Inl e \<Rightarrow> False)"
proof -
  let ?c = "initial_classifier ''prediction'' None"
  have pred: "mode ?c \<noteq> ''training''" by (simp add: initial_classifier_def)
  obtain self' where run: "classify_stages sparse_library ?c valid_image None = Inr self'"
    using classify_stages_contained[OF pred] by blast
  have pos: "log_positions (log_info self') = Some five_positions"
    using run by (auto simp add: prediction_simps example_simps)
  have few: "length five_positions < 10" by (simp add: length_five_positions)
  have logged: "log_classification_info self' = Inr ()"
    using run by (auto simp add: prediction_simps example_simps)
  from not_a_candidate_rejected[OF pred run pos] few logged
  have "classify_raw_fov sparse_library ?c valid_image None = Inr (self', Some False)"
    and "log_reason (log_info self') = Some ''FOV is not a candidate''"
    and "map fst (executed self') =
          [''validate_raw_fov'', ''are_nuclei_in_fov'', ''generate_background_mask'',
           ''find_nucleus_positions'', ''is_fov_candidate'']"
    by simp_all
  with pos few show ?thesis by simp
qed


end
